theory Spec2Isabelle
  imports Main
begin

section \<open>Values of a request body\<close>

text \<open>
  The handlers of \<^verbatim>\<open>Chat.ts\<close> read the fields of \<^verbatim>\<open>req.body\<close>, which the
  HTTP layer parsed from JSON, and test them with \<^verbatim>\<open>!x\<close>, \<^verbatim>\<open>typeof\<close>,
  \<^verbatim>\<open>instanceof Array\<close> and \<^verbatim>\<open>===\<close>. A field is a JavaScript value; a missing
  field reads as \<^verbatim>\<open>undefined\<close>. Strings are lists of 8-bit code units. The last
  constructor is the value a call of an asynchronous function gives: a promise, with the
  value it resolves to.
\<close>

datatype jsval =
    Undefined
  | Null
  | JBool bool
  | JNum int
  | JStr string
  | JArr "jsval list"
  | JObj
  | JPromise jsval

text \<open>
  \<^verbatim>\<open>!x\<close> is true exactly when \<open>x\<close> is not truthy. A promise is an object, and
  truthy whatever it resolves to.
\<close>

fun truthy :: "jsval \<Rightarrow> bool" where
  "truthy Undefined = False"
| "truthy Null = False"
| "truthy (JBool b) = b"
| "truthy (JNum n) = (n \<noteq> 0)"
| "truthy (JStr s) = (s \<noteq> [])"
| "truthy (JArr xs) = True"
| "truthy JObj = True"
| "truthy (JPromise v) = True"

fun isString :: "jsval \<Rightarrow> bool" where
  "isString (JStr s) = True"
| "isString v = False"

text \<open>The strings of an array whose elements all passed the \<^verbatim>\<open>typeof\<close> test.\<close>

fun stringsOf :: "jsval list \<Rightarrow> string list" where
  "stringsOf [] = []"
| "stringsOf (JStr s # xs) = s # stringsOf xs"
| "stringsOf (v # xs) = stringsOf xs"

text \<open>
  \<^verbatim>\<open>String.prototype.trim\<close> strips white space and line terminators from both ends
  (the code units below 256 among them: TAB, LF, VT, FF, CR, SP, NBSP).
\<close>

definition isWhiteSpace :: "char \<Rightarrow> bool" where
  "isWhiteSpace c =
     (c \<in> set [CHR 0x09, CHR 0x0A, CHR 0x0B, CHR 0x0C, CHR 0x0D, CHR 0x20, CHR 0xA0])"

definition trim :: "string \<Rightarrow> string" where
  "trim s = rev (dropWhile isWhiteSpace (rev (dropWhile isWhiteSpace s)))"

text \<open>
  \<^verbatim>\<open>req.body.title?.trim()\<close>: \<^verbatim>\<open>undefined\<close> for a missing or null title, the trimmed
  string for a string, and a \<^verbatim>\<open>TypeError\<close> for any other value, which has no
  \<^verbatim>\<open>trim\<close> method.
\<close>

datatype error = TypeError | AssertionError | ProviderError

fun optionalTrim :: "jsval \<Rightarrow> error + jsval" where
  "optionalTrim Undefined = Inr Undefined"
| "optionalTrim Null = Inr Undefined"
| "optionalTrim (JStr s) = Inr (JStr (trim s))"
| "optionalTrim v = Inl TypeError"

section \<open>Responses\<close>

text \<open>
  What a handler does with \<^verbatim>\<open>res\<close> and \<^verbatim>\<open>next\<close>: it sends a status and a body,
  or forwards an exception to \<^verbatim>\<open>next(e)\<close>, or returns at once because
  \<^verbatim>\<open>handleRequestIntro\<close> gave no request context (and answered itself).
\<close>

datatype payload =
    Status string
  | PlainText string
  | ChatCreated string string
  | EmptyObject
  | OkTrue

datatype outcome =
    Sent nat payload
  | Forwarded error
  | IntroHandled

section \<open>The chat provider\<close>

text \<open>
  The attribute bag of a message, as \<^verbatim>\<open>JSON.parse(message.attributes)\<close> gives it
  (\<open>None\<close> is JSON \<^verbatim>\<open>null\<close>): the \<^verbatim>\<open>reactions\<close> key, a dictionary from a
  reaction to its list of user identities (\<open>None\<close> when the key is absent or null),
  and every other top-level key.
\<close>

record messageAttributes =
  reactions :: "(string \<rightharpoonup> string list) option"
  otherKeys :: "string \<rightharpoonup> jsval"

record channel =
  sid :: string
  uniqueName :: string
  friendlyName :: string
  createdBy :: string
  channelType :: string
  isDMAttr :: bool
  members :: "(string \<times> string) list"
  invites :: "(string \<times> string) list"
  messages :: "(string \<times> messageAttributes option) list"

text \<open>
  The service: its channels, its users (identity, friendly name), its roles (friendly
  name, role SID) and the number of channels it has created so far, from which it draws
  the SID of the next one. A member and an invite are pairs (identity, role SID).
\<close>

record provider =
  channels :: "channel list"
  users :: "(string \<times> string) list"
  roles :: "(string \<times> string) list"
  created :: nat

text \<open>The mutating provider calls of \<^verbatim>\<open>Chat.ts\<close>, with their arguments.\<close>

datatype mutation =
    CreateChannel string string string string bool
  | CreateUser string string
  | CreateMember string string string
  | CreateInvite string string string
  | RemoveChannel string
  | UpdateMessage string string messageAttributes

text \<open>
  A call is issued through \<^verbatim>\<open>callWithRetry\<close> or directly; the log of a request keeps
  the calls in the order they were issued.
\<close>

datatype call = WithRetry mutation | Direct mutation

section \<open>The document store\<close>

record profile =
  profileId :: string
  profileConf :: string
  profileUser :: string
  displayName :: string

text \<open>
  A \<^verbatim>\<open>Parse.ACL\<close>: who may read and who may write. A grantee is the public, a role
  of a conference (conference id, role name) or a user account.
\<close>

datatype grantee = Everyone | ConfRole string string | Account string

record acl =
  readAccess :: "grantee set"
  writeAccess :: "grantee set"

record textChat =
  objectId :: string
  conference :: string
  twilioID :: string
  autoWatch :: bool
  mirrored :: bool
  chatName :: string
  chatACL :: "acl option"

record parseStore =
  profiles :: "profile list"
  textChats :: "textChat list"
  saved :: nat

section \<open>The environment of a request\<close>

text \<open>
  What the handlers take from outside \<^verbatim>\<open>Chat.ts\<close>: the comparison
  \<^verbatim>\<open>String.prototype.localeCompare\<close>, the value \<^verbatim>\<open>uuidv4()\<close> returns in this
  request, the conference privilege of an account (whether it holds one of the given
  roles in the conference), which provider calls fail (for a call under
  \<^verbatim>\<open>callWithRetry\<close>: fail on every attempt), and the identifiers the provider and the
  store give to new objects.
\<close>

record env =
  localeCompare :: "string \<Rightarrow> string \<Rightarrow> int"
  uuidv4 :: string
  privilege :: "string \<Rightarrow> string \<Rightarrow> string list \<Rightarrow> bool"
  fails :: "mutation \<Rightarrow> bool"
  newSid :: "nat \<Rightarrow> string"
  newObjectId :: "nat \<Rightarrow> string"

record requestContext =
  conf :: string
  userProfile :: profile

record world =
  provider :: provider
  store :: parseStore
  calls :: "call list"

text \<open>The channel the provider makes of \<^verbatim>\<open>channels.create\<close>: empty, with a SID of its own.\<close>

definition freshChannel ::
  "env \<Rightarrow> string \<Rightarrow> string \<Rightarrow> string \<Rightarrow> string \<Rightarrow> bool \<Rightarrow> provider \<Rightarrow> channel" where
  "freshChannel e fname uname creator ty dm p =
     \<lparr>sid = newSid e (created p), uniqueName = uname, friendlyName = fname,
      createdBy = creator, channelType = ty, isDMAttr = dm,
      members = [], invites = [], messages = []\<rparr>"

text \<open>What a provider call that succeeds does to the service.\<close>

fun effect :: "env \<Rightarrow> mutation \<Rightarrow> provider \<Rightarrow> provider" where
  "effect e (CreateChannel fname uname creator ty dm) p =
     p\<lparr>channels := channels p @ [freshChannel e fname uname creator ty dm p],
       created := Suc (created p)\<rparr>"
| "effect e (CreateUser i n) p = p\<lparr>users := users p @ [(i, n)]\<rparr>"
| "effect e (CreateMember s i r) p =
     p\<lparr>channels := map (\<lambda>c. if sid c = s then c\<lparr>members := members c @ [(i, r)]\<rparr> else c)
                         (channels p)\<rparr>"
| "effect e (CreateInvite s i r) p =
     p\<lparr>channels := map (\<lambda>c. if sid c = s then c\<lparr>invites := invites c @ [(i, r)]\<rparr> else c)
                         (channels p)\<rparr>"
| "effect e (RemoveChannel s) p = p\<lparr>channels := filter (\<lambda>c. sid c \<noteq> s) (channels p)\<rparr>"
| "effect e (UpdateMessage s m a) p =
     p\<lparr>channels := map (\<lambda>c. if sid c = s
                               then c\<lparr>messages := map (\<lambda>(k, v). if k = m then (k, Some a) else (k, v))
                                                       (messages c)\<rparr>
                               else c)
                         (channels p)\<rparr>"

text \<open>
  A provider call is logged, and takes effect unless it fails; the result says whether
  it succeeded. Whether a call fails is for the environment to say: the provider's own
  checks (a unique name that is taken, a member that exists already) are not modelled.
\<close>

definition callProvider :: "env \<Rightarrow> bool \<Rightarrow> mutation \<Rightarrow> world \<Rightarrow> bool \<times> world" where
  "callProvider e retry m w =
     (let w1 = w\<lparr>calls := calls w @ [if retry then WithRetry m else Direct m]\<rparr>
      in if fails e m then (False, w1)
         else (True, w1\<lparr>provider := effect e m (provider w1)\<rparr>))"

text \<open>
  Modelled from the spec: \<^verbatim>\<open>callWithRetry\<close> of \<^verbatim>\<open>RequestHelpers\<close> is not among the
  sources. It retries the call a bounded number of times and lets the error through
  when every attempt failed: a call under it is one logged call, which fails when all
  its attempts do.
\<close>

definition callWithRetry :: "env \<Rightarrow> mutation \<Rightarrow> world \<Rightarrow> bool \<times> world" where
  "callWithRetry e m w = callProvider e True m w"

text \<open>
  \<^verbatim>\<open>await Promise.all(xs.map(async x => ...))\<close>: every callback is started, in the
  order of the list, and the whole fails when one of them fails.
\<close>

fun promiseAll :: "('a \<Rightarrow> world \<Rightarrow> bool \<times> world) \<Rightarrow> 'a list \<Rightarrow> world \<Rightarrow> bool \<times> world" where
  "promiseAll f [] w = (True, w)"
| "promiseAll f (x # xs) w =
     (case f x w of (ok, w1) \<Rightarrow>
        (case promiseAll f xs w1 of (oks, w2) \<Rightarrow> (ok \<and> oks, w2)))"

section \<open>Reactions\<close>

text \<open>
  The property names a plain object inherits from \<^verbatim>\<open>Object.prototype\<close>: for such a
  name \<^verbatim>\<open>reactions[reaction]\<close> is not nullish even when the dictionary has no entry
  of its own, and the inherited value has no \<^verbatim>\<open>includes\<close> method.
\<close>

definition inheritedProperty :: "string \<Rightarrow> bool" where
  "inheritedProperty k =
     (k \<in> set [''constructor'', ''__proto__'', ''hasOwnProperty'', ''isPrototypeOf'',
               ''propertyIsEnumerable'', ''toLocaleString'', ''toString'', ''valueOf'',
               ''__defineGetter__'', ''__defineSetter__'', ''__lookupGetter__'',
               ''__lookupSetter__''])"

text \<open>
  \<^verbatim>\<open>const reactions = attributes?.reactions ?? {}\<close> and
  \<^verbatim>\<open>const reactionUsers = reactions[reaction] ?? []\<close>; the second is an error where
  the next line would call \<^verbatim>\<open>includes\<close> on an inherited value.
\<close>

definition reactionsOf :: "messageAttributes option \<Rightarrow> (string \<rightharpoonup> string list)" where
  "reactionsOf attributes =
     (case attributes of
        None \<Rightarrow> Map.empty
      | Some a \<Rightarrow> (case reactions a of None \<Rightarrow> Map.empty | Some r \<Rightarrow> r))"

definition reactionUsersOf :: "(string \<rightharpoonup> string list) \<Rightarrow> string \<Rightarrow> error + string list" where
  "reactionUsersOf rs reaction =
     (case rs reaction of
        Some us \<Rightarrow> Inr us
      | None \<Rightarrow> if inheritedProperty reaction then Inl TypeError else Inr [])"

text \<open>\<^verbatim>\<open>{ ...(attributes ?? {}), reactions }\<close>\<close>

definition withReactions ::
  "messageAttributes option \<Rightarrow> (string \<rightharpoonup> string list) \<Rightarrow> messageAttributes" where
  "withReactions attributes rs =
     (case attributes of
        None \<Rightarrow> \<lparr>reactions = Some rs, otherKeys = Map.empty\<rparr>
      | Some a \<Rightarrow> a\<lparr>reactions := Some rs\<rparr>)"

text \<open>
  The read-modify-write of \<^verbatim>\<open>handleAddReaction\<close> on the parsed attributes: the new
  attributes to write, \<open>None\<close> when the user already reacted and nothing is written.
\<close>

definition addReaction ::
  "string \<Rightarrow> string \<Rightarrow> messageAttributes option \<Rightarrow> error + messageAttributes option" where
  "addReaction user reaction attributes =
     (let rs = reactionsOf attributes in
      case reactionUsersOf rs reaction of
        Inl err \<Rightarrow> Inl err
      | Inr reactionUsers \<Rightarrow>
          if user \<notin> set reactionUsers
          then Inr (Some (withReactions attributes (rs(reaction \<mapsto> reactionUsers @ [user]))))
          else Inr None)"

text \<open>The same for \<^verbatim>\<open>handleRemoveReaction\<close>.\<close>

definition removeReaction ::
  "string \<Rightarrow> string \<Rightarrow> messageAttributes option \<Rightarrow> error + messageAttributes option" where
  "removeReaction user reaction attributes =
     (let rs = reactionsOf attributes in
      case reactionUsersOf rs reaction of
        Inl err \<Rightarrow> Inl err
      | Inr reactionUsers \<Rightarrow>
          if user \<in> set reactionUsers
          then (let remaining = filter (\<lambda>x. x \<noteq> user) reactionUsers;
                    rs1 = (if length remaining = 0 then rs(reaction := None)
                           else rs(reaction \<mapsto> remaining))
                in Inr (Some (withReactions attributes rs1)))
          else Inr None)"

record reactionBody =
  bodyChannel :: jsval
  bodyMessage :: jsval
  bodyReaction :: jsval

text \<open>\<^verbatim>\<open>!x || typeof x !== "string"\<close>: the string when the test passes.\<close>

fun nonEmptyString :: "jsval \<Rightarrow> string option" where
  "nonEmptyString (JStr s) = (if s = [] then None else Some s)"
| "nonEmptyString v = None"

text \<open>
  The two handlers differ only in the read-modify-write. Listing the members of a
  channel, or fetching a message, that the provider does not have is a provider error.
\<close>

definition handleReaction ::
  "(string \<Rightarrow> string \<Rightarrow> messageAttributes option \<Rightarrow> error + messageAttributes option) \<Rightarrow>
   env \<Rightarrow> requestContext option \<Rightarrow> reactionBody \<Rightarrow> world \<Rightarrow> outcome \<times> world" where
  "handleReaction modify e rc body w =
     (case rc of
        None \<Rightarrow> (IntroHandled, w)
      | Some ctx \<Rightarrow>
     (case nonEmptyString (bodyChannel body) of
        None \<Rightarrow> (Sent 400 (Status ''Invalid or missing channel sid''), w)
      | Some channelSid \<Rightarrow>
     (case nonEmptyString (bodyMessage body) of
        None \<Rightarrow> (Sent 400 (Status ''Invalid or missing message sid''), w)
      | Some messageSid \<Rightarrow>
     (case nonEmptyString (bodyReaction body) of
        None \<Rightarrow> (Sent 400 (Status ''Invalid or missing reaction''), w)
      | Some reaction \<Rightarrow>
     (case find (\<lambda>c. sid c = channelSid) (channels (provider w)) of
        None \<Rightarrow> (Forwarded ProviderError, w)
      | Some ch \<Rightarrow>
          if profileId (userProfile ctx) \<notin> set (map fst (members ch))
          then (Sent 403 (Status ''Invalid channel''), w)
          else
     (case map_of (messages ch) messageSid of
        None \<Rightarrow> (Forwarded ProviderError, w)
      | Some attributes \<Rightarrow>
     (case modify (profileId (userProfile ctx)) reaction attributes of
        Inl err \<Rightarrow> (Forwarded err, w)
      | Inr None \<Rightarrow> (Sent 200 OkTrue, w)
      | Inr (Some attributes1) \<Rightarrow>
          (case callProvider e False (UpdateMessage channelSid messageSid attributes1) w of
             (False, w1) \<Rightarrow> (Forwarded ProviderError, w1)
           | (True, w1) \<Rightarrow> (Sent 200 OkTrue, w1)))))))))"

definition handleAddReaction ::
  "env \<Rightarrow> requestContext option \<Rightarrow> reactionBody \<Rightarrow> world \<Rightarrow> outcome \<times> world" where
  "handleAddReaction = handleReaction addReaction"

definition handleRemoveReaction ::
  "env \<Rightarrow> requestContext option \<Rightarrow> reactionBody \<Rightarrow> world \<Rightarrow> outcome \<times> world" where
  "handleRemoveReaction = handleReaction removeReaction"

section \<open>The mirror record of a channel\<close>

text \<open>
  Modelled from the spec: \<^verbatim>\<open>getUserProfileByID\<close> of \<^verbatim>\<open>ParseHelpers\<close> is not among the
  sources. It resolves an identity to the profile with that id in the conference, if
  there is one.
\<close>

definition getUserProfileByID :: "string \<Rightarrow> string \<Rightarrow> parseStore \<Rightarrow> profile option" where
  "getUserProfileByID i cnf st = find (\<lambda>p. profileId p = i \<and> profileConf p = cnf) (profiles st)"

text \<open>
  Modelled from the spec: \<^verbatim>\<open>getRoleByName\<close> of \<^verbatim>\<open>Roles\<close> is not among the sources.
  It gives the role of that name of the conference.
\<close>

definition getRoleByName :: "string \<Rightarrow> string \<Rightarrow> grantee" where
  "getRoleByName name cnf = ConfRole cnf name"

text \<open>The operations of \<^verbatim>\<open>Parse.ACL\<close> that \<^verbatim>\<open>Chat.ts\<close> calls.\<close>

definition newACL :: acl where
  "newACL = \<lparr>readAccess = {}, writeAccess = {}\<rparr>"

definition setReadAccess :: "grantee \<Rightarrow> bool \<Rightarrow> acl \<Rightarrow> acl" where
  "setReadAccess g allowed a =
     a\<lparr>readAccess := (if allowed then insert g (readAccess a) else readAccess a - {g})\<rparr>"

definition setWriteAccess :: "grantee \<Rightarrow> bool \<Rightarrow> acl \<Rightarrow> acl" where
  "setWriteAccess g allowed a =
     a\<lparr>writeAccess := (if allowed then insert g (writeAccess a) else writeAccess a - {g})\<rparr>"

definition setPublicReadAccess :: "bool \<Rightarrow> acl \<Rightarrow> acl" where
  "setPublicReadAccess allowed a = setReadAccess Everyone allowed a"

definition setPublicWriteAccess :: "bool \<Rightarrow> acl \<Rightarrow> acl" where
  "setPublicWriteAccess allowed a = setWriteAccess Everyone allowed a"

definition setRoleReadAccess :: "grantee \<Rightarrow> bool \<Rightarrow> acl \<Rightarrow> acl" where
  "setRoleReadAccess role allowed a = setReadAccess role allowed a"

definition setRoleWriteAccess :: "grantee \<Rightarrow> bool \<Rightarrow> acl \<Rightarrow> acl" where
  "setRoleWriteAccess role allowed a = setWriteAccess role allowed a"

definition getRoleReadAccess :: "acl \<Rightarrow> grantee \<Rightarrow> bool" where
  "getRoleReadAccess a role = (role \<in> readAccess a)"

text \<open>
  \<^verbatim>\<open>textChat.save\<close>: a record the store does not have yet is added, one it has is
  replaced.
\<close>

definition saveTextChat :: "textChat \<Rightarrow> world \<Rightarrow> world" where
  "saveTextChat t w =
     w\<lparr>store := (store w)\<lparr>textChats :=
        (if objectId t \<in> set (map objectId (textChats (store w)))
         then map (\<lambda>x. if objectId x = objectId t then t else x) (textChats (store w))
         else textChats (store w) @ [t])\<rparr>\<rparr>"

text \<open>
  \<^verbatim>\<open>getOrCreateTextChat\<close>: the first record of the conference with the channel's SID,
  or a new one with an empty access list. The store gives the new record its id; the
  source does not await this first \<^verbatim>\<open>save\<close>, which is taken to be done before the
  next one. Writes to the store do not fail here.
\<close>

definition getOrCreateTextChat ::
  "env \<Rightarrow> channel \<Rightarrow> string \<Rightarrow> bool \<Rightarrow> world \<Rightarrow> textChat \<times> world" where
  "getOrCreateTextChat e newChannel cnf isDM w =
     (case find (\<lambda>t. conference t = cnf \<and> twilioID t = sid newChannel) (textChats (store w)) of
        Some t \<Rightarrow> (t, w)
      | None \<Rightarrow>
          (let t = \<lparr>objectId = newObjectId e (saved (store w)), conference = cnf,
                    twilioID = sid newChannel, autoWatch = isDM, mirrored = False,
                    chatName = friendlyName newChannel, chatACL = Some newACL\<rparr>
           in (t, w\<lparr>store := (store w)\<lparr>textChats := textChats (store w) @ [t],
                                         saved := Suc (saved (store w))\<rparr>\<rparr>)))"

text \<open>
  \<^verbatim>\<open>newChannel.members().list()\<close> and \<^verbatim>\<open>newChannel.invites().list()\<close> ask the provider
  for the channel with the SID of \<^verbatim>\<open>newChannel\<close>; for a channel it does not have the
  provider answers with an error (\<open>None\<close>).
\<close>

definition listMembers :: "world \<Rightarrow> string \<Rightarrow> string list option" where
  "listMembers w s =
     map_option (\<lambda>c. map fst (members c)) (find (\<lambda>c. sid c = s) (channels (provider w)))"

definition listInvites :: "world \<Rightarrow> string \<Rightarrow> string list option" where
  "listInvites w s =
     map_option (\<lambda>c. map fst (invites c)) (find (\<lambda>c. sid c = s) (channels (provider w)))"

text \<open>
  The body of the \<^verbatim>\<open>Promise.all\<close> of \<^verbatim>\<open>updateTextChatACLs\<close>, for one identity: read
  access for the account of its profile, nothing when it has no profile.
\<close>

definition grantProfileRead :: "string \<Rightarrow> parseStore \<Rightarrow> acl \<Rightarrow> string \<Rightarrow> acl" where
  "grantProfileRead cnf st a profileIdent =
     (case getUserProfileByID profileIdent cnf st of
        Some p \<Rightarrow> setReadAccess (Account (profileUser p)) True a
      | None \<Rightarrow> a)"

text \<open>
  The access list \<^verbatim>\<open>updateTextChatACLs\<close> builds, from the privacy flag it was given
  or derived, and the member and invite identities it listed.
\<close>

definition rebuiltACL :: "string \<Rightarrow> parseStore \<Rightarrow> bool \<Rightarrow> string list \<Rightarrow> acl" where
  "rebuiltACL cnf st isPrivate allIds =
     (let attendeeRole = getRoleByName ''attendee'' cnf;
          managerRole = getRoleByName ''manager'' cnf;
          adminRole = getRoleByName ''admin'' cnf;
          a = setRoleWriteAccess adminRole True
                (setRoleReadAccess adminRole True
                  (setRoleWriteAccess managerRole True
                    (setRoleReadAccess managerRole True
                      (setPublicWriteAccess False
                        (setPublicReadAccess False newACL)))))
      in if isPrivate then foldl (grantProfileRead cnf st) a allIds
         else setRoleReadAccess attendeeRole True a)"

text \<open>
  \<^verbatim>\<open>isPrivate = existingACL?.getRoleReadAccess(attendeeRole) ?? false\<close>, when the
  caller gave no flag.
\<close>

definition derivedIsPrivate :: "textChat \<Rightarrow> bool" where
  "derivedIsPrivate tc =
     (case chatACL tc of
        Some existingACL \<Rightarrow> getRoleReadAccess existingACL (getRoleByName ''attendee'' (conference tc))
      | None \<Rightarrow> False)"

text \<open>
  \<^verbatim>\<open>updateTextChatACLs\<close>: \<open>None\<close> when listing the members or the invites failed
  (nothing is saved then).
\<close>

definition updateTextChatACLs :: "channel \<Rightarrow> textChat \<Rightarrow> bool option \<Rightarrow> world \<Rightarrow> world option" where
  "updateTextChatACLs newChannel tc isPrivateArg w =
     (let cnf = conference tc;
          isPrivate = (case isPrivateArg of Some b \<Rightarrow> b | None \<Rightarrow> derivedIsPrivate tc)
      in if isPrivate
         then (case (listMembers w (sid newChannel), listInvites w (sid newChannel)) of
                 (Some memberIds, Some invitedIds) \<Rightarrow>
                   Some (saveTextChat
                          (tc\<lparr>chatACL := Some (rebuiltACL cnf (store w) True (memberIds @ invitedIds))\<rparr>) w)
               | _ \<Rightarrow> None)
         else Some (saveTextChat (tc\<lparr>chatACL := Some (rebuiltACL cnf (store w) False [])\<rparr>) w))"

section \<open>Creating a chat\<close>

record createChatBody =
  bodyInvite :: jsval
  bodyMode :: jsval
  bodyTitle :: jsval
  bodyForVideoRoom :: jsval

text \<open>
  The validation of \<^verbatim>\<open>handleCreateChat\<close>, in the order of the source: the response
  that ends the request, or the invited ids (without the requester's own), the mode
  and the trimmed title.
\<close>

definition validateCreateChat ::
  "requestContext \<Rightarrow> createChatBody \<Rightarrow> outcome + (string list \<times> string \<times> string)" where
  "validateCreateChat ctx body =
     (case optionalTrim (bodyTitle body) of
        Inl err \<Rightarrow> Inl (Forwarded err)
      | Inr title \<Rightarrow>
          if \<not> truthy (bodyInvite body) \<or> \<not> truthy title \<or> title = JStr [] \<or> \<not> truthy (bodyMode body)
          then Inl (Sent 400 (Status ''Missing request parameter(s).''))
          else
            (case bodyInvite body of
               JArr elems \<Rightarrow>
                 if \<not> list_all isString elems
                 then Inl (Sent 400 (Status ''Invited member ids should be strings.''))
                 else
                   (let userProfileIdsToInvite =
                          filter (\<lambda>x. x \<noteq> profileId (userProfile ctx)) (stringsOf elems)
                    in case bodyMode body of
                         JStr mode \<Rightarrow>
                           if mode \<noteq> ''public'' \<and> mode \<noteq> ''private''
                           then Inl (Sent 400 (Status ''Mode should be 'public' or 'private'.''))
                           else
                             (case title of
                                JStr t \<Rightarrow>
                                  if length (trim t) < 5
                                  then Inl (Sent 400 (Status
                                    ''Title should be a trimmed string of at least 5 non-empty characters.''))
                                  else Inr (userProfileIdsToInvite, mode, trim t)
                              | _ \<Rightarrow> Inl (Sent 400 (Status
                                    ''Title should be a trimmed string of at least 5 non-empty characters.'')))
                       | _ \<Rightarrow> Inl (Sent 400 (Status ''Mode should be 'public' or 'private'.'')))
             | _ \<Rightarrow> Inl (Sent 400 (Status ''Invited members should be an array.''))))"

text \<open>
  \<^verbatim>\<open>isDM\<close> and \<^verbatim>\<open>uniqueName\<close>. \<^verbatim>\<open>userProfilesToInvite[0]\<close> is read only when
  \<^verbatim>\<open>isDM\<close> holds, and then the list has one element.
\<close>

definition isDMRequest :: "string \<Rightarrow> profile list \<Rightarrow> jsval \<Rightarrow> bool" where
  "isDMRequest mode userProfilesToInvite forVideoRoom =
     (mode = ''private'' \<and> length userProfilesToInvite = 1 \<and> forVideoRoom \<noteq> JBool True)"

definition dmUniqueName :: "env \<Rightarrow> string \<Rightarrow> string \<Rightarrow> string" where
  "dmUniqueName e requester invitee =
     (if localeCompare e requester invitee = - 1
      then requester @ ''-'' @ invitee
      else invitee @ ''-'' @ requester)"

definition uniqueNameFor :: "env \<Rightarrow> bool \<Rightarrow> string \<Rightarrow> profile list \<Rightarrow> string" where
  "uniqueNameFor e isDM requester userProfilesToInvite =
     take 64 (if isDM then dmUniqueName e requester (profileId (userProfilesToInvite ! 0))
              else requester @ ''-'' @ uuidv4 e)"

text \<open>
  Modelled from the spec: \<^verbatim>\<open>isUserInRoles\<close> of \<^verbatim>\<open>Roles\<close> is not among the sources.
  It resolves the conference privilege of an account by a query of the store, which
  suspends: it is asynchronous, as \<^verbatim>\<open>getRoleByName\<close> of the same module, which
  \<^verbatim>\<open>updateTextChatACLs\<close> awaits. A call gives a promise, which resolves to whether
  the account holds one of the roles.
\<close>

definition isUserInRoles :: "env \<Rightarrow> string \<Rightarrow> string \<Rightarrow> string list \<Rightarrow> jsval" where
  "isUserInRoles e userId confId allowedRoles =
     JPromise (JBool (privilege e userId confId allowedRoles))"

text \<open>
  The role SID given to the requester's membership and to an invitation.
  \<^verbatim>\<open>const userIsManager = isUserInRoles(...)\<close> has no \<^verbatim>\<open>await\<close>:
  \<^verbatim>\<open>userIsManager\<close> is the value the call returned, and \<^verbatim>\<open>!userIsManager\<close> and
  \<^verbatim>\<open>userIsManager ? ... : ...\<close> test that value for truthiness.
\<close>

definition requesterRoleSid :: "env \<Rightarrow> requestContext \<Rightarrow> bool \<Rightarrow> string \<Rightarrow> string \<Rightarrow> string" where
  "requesterRoleSid e ctx isDM channelAdminRole channelUserRole =
     (let userIsManager =
            isUserInRoles e (profileUser (userProfile ctx)) (conf ctx) [''admin'', ''manager'']
      in if isDM \<and> \<not> truthy userIsManager then channelUserRole else channelAdminRole)"

definition inviteeRoleSid :: "env \<Rightarrow> requestContext \<Rightarrow> profile \<Rightarrow> string \<Rightarrow> string \<Rightarrow> string" where
  "inviteeRoleSid e ctx p channelAdminRole channelUserRole =
     (let userIsManager = isUserInRoles e (profileUser p) (conf ctx) [''admin'', ''manager'']
      in if truthy userIsManager then channelAdminRole else channelUserRole)"

text \<open>
  The callback of the \<^verbatim>\<open>Promise.all\<close> on an existing channel (in
  \<^verbatim>\<open>handleCreateChat\<close> and in \<^verbatim>\<open>handleInviteToChat\<close>): an invitation for a profile
  that is neither a member nor invited.
\<close>

definition inviteIfAbsent ::
  "env \<Rightarrow> requestContext \<Rightarrow> string \<Rightarrow> string \<Rightarrow> string \<Rightarrow> string list \<Rightarrow> string list \<Rightarrow>
   profile \<Rightarrow> world \<Rightarrow> bool \<times> world" where
  "inviteIfAbsent e ctx channelSid channelAdminRole channelUserRole memberIds inviteIds p w =
     (if profileId p \<notin> set memberIds \<and> profileId p \<notin> set inviteIds
      then callWithRetry e
             (CreateInvite channelSid (profileId p)
                (inviteeRoleSid e ctx p channelAdminRole channelUserRole)) w
      else (True, w))"

text \<open>
  The branch \<^verbatim>\<open>existingChannels.length > 0\<close>; the result is false when a call failed
  (the exception leaves the handler through \<^verbatim>\<open>next\<close>).
\<close>

definition existingChannelPath ::
  "env \<Rightarrow> requestContext \<Rightarrow> bool \<Rightarrow> string \<Rightarrow> string \<Rightarrow> profile list \<Rightarrow> channel \<Rightarrow>
   world \<Rightarrow> bool \<times> world" where
  "existingChannelPath e ctx isDM channelAdminRole channelUserRole userProfilesToInvite newChannel w =
     (let memberIds = map fst (members newChannel);
          inviteIds = map fst (invites newChannel)
      in case (if profileId (userProfile ctx) \<notin> set memberIds
               then callWithRetry e
                      (CreateMember (sid newChannel) (profileId (userProfile ctx))
                         (requesterRoleSid e ctx isDM channelAdminRole channelUserRole)) w
               else (True, w)) of
           (False, w1) \<Rightarrow> (False, w1)
         | (True, w1) \<Rightarrow>
             promiseAll
               (inviteIfAbsent e ctx (sid newChannel) channelAdminRole channelUserRole memberIds inviteIds)
               userProfilesToInvite w1)"

text \<open>\<^verbatim>\<open>ensureTwilioUsersExist\<close>; its \<^verbatim>\<open>users.create\<close> is not under \<^verbatim>\<open>callWithRetry\<close>.\<close>

definition ensureTwilioUsersExist :: "env \<Rightarrow> profile list \<Rightarrow> world \<Rightarrow> bool \<times> world" where
  "ensureTwilioUsersExist e ps w =
     (let existingUserProfileIds = map fst (users (provider w))
      in promiseAll
           (\<lambda>x w1. if profileId x \<notin> set existingUserProfileIds
                    then callProvider e False (CreateUser (profileId x) (displayName x)) w1
                    else (True, w1))
           ps w)"

text \<open>
  The \<^verbatim>\<open>try\<close> block after a channel was created; the result is false when the
  \<^verbatim>\<open>catch\<close> block is entered.
\<close>

definition newChannelPath ::
  "env \<Rightarrow> requestContext \<Rightarrow> bool \<Rightarrow> string \<Rightarrow> string \<Rightarrow> profile list \<Rightarrow> channel \<Rightarrow>
   world \<Rightarrow> bool \<times> world" where
  "newChannelPath e ctx isDM channelAdminRole channelUserRole userProfilesToInvite newChannel w =
     (case ensureTwilioUsersExist e (userProfilesToInvite @ [userProfile ctx]) w of
        (False, w1) \<Rightarrow> (False, w1)
      | (True, w1) \<Rightarrow>
          (case callWithRetry e
                  (CreateMember (sid newChannel) (profileId (userProfile ctx))
                     (requesterRoleSid e ctx isDM channelAdminRole channelUserRole)) w1 of
             (False, w2) \<Rightarrow> (False, w2)
           | (True, w2) \<Rightarrow>
               promiseAll
                 (\<lambda>p. callWithRetry e
                         (CreateInvite (sid newChannel) (profileId p)
                            (inviteeRoleSid e ctx p channelAdminRole channelUserRole)))
                 userProfilesToInvite w2))"

text \<open>The end of \<^verbatim>\<open>handleCreateChat\<close>: the mirror record, its access list, the response.\<close>

definition mirrorAndRespond ::
  "env \<Rightarrow> requestContext \<Rightarrow> channel \<Rightarrow> bool \<Rightarrow> bool \<Rightarrow> world \<Rightarrow> outcome \<times> world" where
  "mirrorAndRespond e ctx newChannel isDM isPrivate w =
     (case getOrCreateTextChat e newChannel (conf ctx) isDM w of
        (tc, w1) \<Rightarrow>
          (case updateTextChatACLs newChannel tc (Some isPrivate) w1 of
             None \<Rightarrow> (Forwarded ProviderError, w1)
           | Some w2 \<Rightarrow> (Sent 200 (ChatCreated (sid newChannel) (objectId tc)), w2)))"

text \<open>
  \<^verbatim>\<open>handleCreateChat\<close> after the validation and the profile lookups: the channel is
  resolved or created, its membership reconciled, its mirror record synchronised.
\<close>

definition provisionChat ::
  "env \<Rightarrow> requestContext \<Rightarrow> createChatBody \<Rightarrow> string \<Rightarrow> string \<Rightarrow> profile list \<Rightarrow> world \<Rightarrow>
   outcome \<times> world" where
  "provisionChat e ctx body mode title userProfilesToInvite w =
     (let isPrivate = (mode = ''private'');
          isDM = isDMRequest mode userProfilesToInvite (bodyForVideoRoom body);
          uname = uniqueNameFor e isDM (profileId (userProfile ctx)) userProfilesToInvite;
          fname = (if isDM then uname else title);
          creator = (if isDM then ''system'' else profileId (userProfile ctx));
          existingChannels =
            (if isDM then filter (\<lambda>x. uniqueName x = uname) (channels (provider w)) else [])
      in case (map_of (roles (provider w)) ''channel admin'',
               map_of (roles (provider w)) ''channel user'') of
           (Some channelAdminRole, Some channelUserRole) \<Rightarrow>
             (case existingChannels of
                newChannel # others \<Rightarrow>
                  (case existingChannelPath e ctx isDM channelAdminRole channelUserRole
                          userProfilesToInvite newChannel w of
                     (False, w1) \<Rightarrow> (Forwarded ProviderError, w1)
                   | (True, w1) \<Rightarrow> mirrorAndRespond e ctx newChannel isDM isPrivate w1)
              | [] \<Rightarrow>
                  (case callWithRetry e (CreateChannel fname uname creator mode isDM) w of
                     (False, w1) \<Rightarrow> (Forwarded ProviderError, w1)
                   | (True, w1) \<Rightarrow>
                       (let newChannel = freshChannel e fname uname creator mode isDM (provider w)
                        in case newChannelPath e ctx isDM channelAdminRole channelUserRole
                                  userProfilesToInvite newChannel w1 of
                             (True, w2) \<Rightarrow> mirrorAndRespond e ctx newChannel isDM isPrivate w2
                           | (False, w2) \<Rightarrow>
                               (case callWithRetry e (RemoveChannel (sid newChannel)) w2 of
                                  (False, w3) \<Rightarrow> (Forwarded ProviderError, w3)
                                | (True, w3) \<Rightarrow>
                                    (Sent 500 (Status ''Failed to add or invite members.''), w3)))))
         | _ \<Rightarrow> (Forwarded AssertionError, w))"

definition handleCreateChat ::
  "env \<Rightarrow> requestContext option \<Rightarrow> createChatBody \<Rightarrow> world \<Rightarrow> outcome \<times> world" where
  "handleCreateChat e rc body w =
     (case rc of
        None \<Rightarrow> (IntroHandled, w)
      | Some ctx \<Rightarrow>
          (case validateCreateChat ctx body of
             Inl out \<Rightarrow> (out, w)
           | Inr (userProfileIdsToInvite, mode, title) \<Rightarrow>
               (case those (map (\<lambda>i. getUserProfileByID i (conf ctx) (store w))
                                userProfileIdsToInvite) of
                  None \<Rightarrow> (Sent 400 (Status ''Users to invite invalid.''), w)
                | Some userProfilesToInvite \<Rightarrow>
                    provisionChat e ctx body mode title userProfilesToInvite w)))"

section \<open>Inviting to a chat\<close>

record inviteBody =
  bodyTargetIdentities :: jsval
  bodyInviteChannel :: jsval

text \<open>
  The end of \<^verbatim>\<open>handleInviteToChat\<close> on a channel that is not a direct-message
  channel: the mirror record, its access list rebuilt without a privacy flag, the
  response.
\<close>

definition mirrorAfterInvite ::
  "env \<Rightarrow> requestContext \<Rightarrow> channel \<Rightarrow> world \<Rightarrow> outcome \<times> world" where
  "mirrorAfterInvite e ctx existingChannel w =
     (case getOrCreateTextChat e existingChannel (conf ctx) (isDMAttr existingChannel) w of
        (tc, w1) \<Rightarrow>
          (case updateTextChatACLs existingChannel tc None w1 of
             None \<Rightarrow> (Forwarded ProviderError, w1)
           | Some w2 \<Rightarrow> (Sent 200 EmptyObject, w2)))"

text \<open>
  \<^verbatim>\<open>handleInviteToChat\<close>. The channel is fetched by its SID, before the roles are
  listed; for a SID the provider does not have the fetch is rejected and the exception
  goes to \<^verbatim>\<open>next\<close>, as in the reaction handlers. A fetch that succeeds gives a
  channel, so the \<^verbatim>\<open>else\<close> branch of \<^verbatim>\<open>if (existingChannel)\<close> (500,
  \<^verbatim>\<open>Channel not found.\<close>) is never taken.
\<close>

definition handleInviteToChat ::
  "env \<Rightarrow> requestContext option \<Rightarrow> inviteBody \<Rightarrow> world \<Rightarrow> outcome \<times> world" where
  "handleInviteToChat e rc body w =
     (case rc of
        None \<Rightarrow> (IntroHandled, w)
      | Some ctx \<Rightarrow>
     if \<not> truthy (bodyTargetIdentities body) \<or> \<not> truthy (bodyInviteChannel body)
     then (Sent 400 (Status ''Missing request parameter(s).''), w)
     else
     (case bodyInviteChannel body of
        JStr channelSID \<Rightarrow>
     (case bodyTargetIdentities body of
        JArr elems \<Rightarrow>
          if \<not> list_all isString elems
          then (Sent 400 (Status ''Invited member ids should be strings.''), w)
          else
     (let userProfileIdsToInvite = filter (\<lambda>x. x \<noteq> profileId (userProfile ctx)) (stringsOf elems)
      in if length userProfileIdsToInvite = 0
         then (Sent 400 (Status
                ''Invited members should be a non-empty array (that does not include yourself).''), w)
         else
     (case those (map (\<lambda>i. getUserProfileByID i (conf ctx) (store w)) userProfileIdsToInvite) of
        None \<Rightarrow> (Sent 400 (Status ''Users to invite invalid.''), w)
      | Some userProfilesToInvite \<Rightarrow>
     (case find (\<lambda>c. sid c = channelSID) (channels (provider w)) of
        None \<Rightarrow> (Forwarded ProviderError, w)
      | Some existingChannel \<Rightarrow>
     (case (map_of (roles (provider w)) ''channel admin'',
            map_of (roles (provider w)) ''channel user'') of
        (Some channelAdminRole, Some channelUserRole) \<Rightarrow>
          if \<not> isDMAttr existingChannel
          then
            (let memberIds = map fst (members existingChannel);
                 inviteIds = map fst (invites existingChannel)
             in if profileId (userProfile ctx) \<in> set memberIds
                then
                  (case promiseAll
                          (inviteIfAbsent e ctx (sid existingChannel) channelAdminRole
                             channelUserRole memberIds inviteIds)
                          userProfilesToInvite w of
                     (False, w1) \<Rightarrow> (Forwarded ProviderError, w1)
                   | (True, w1) \<Rightarrow> mirrorAfterInvite e ctx existingChannel w1)
                else (Sent 403 (PlainText ''Access denied.''), w))
          else (Sent 400 (PlainText ''Cannot invite more users to a DM chat.''), w)
      | _ \<Rightarrow> (Forwarded AssertionError, w)))))
      | _ \<Rightarrow> (Sent 400 (Status ''Invited members should be an array.''), w))
      | _ \<Rightarrow> (Sent 400 (Status ''Channel should be a string.''), w)))"

section \<open>Observations of a world\<close>

text \<open>
  What the theorems read off a world: the channel with a SID, the identities of its
  members, the parsed attributes of a message (\<open>None\<close> when the channel or the message
  does not exist), the reactions dictionary and the other top-level keys stored in them,
  and the user list of one reaction (empty when the reaction has no entry).
\<close>

definition channelOf :: "world \<Rightarrow> string \<Rightarrow> channel option" where
  "channelOf w c = find (\<lambda>x. sid x = c) (channels (provider w))"

definition membersOf :: "world \<Rightarrow> string \<Rightarrow> string list" where
  "membersOf w c = (case channelOf w c of None \<Rightarrow> [] | Some ch \<Rightarrow> map fst (members ch))"

definition messageOf :: "world \<Rightarrow> string \<Rightarrow> string \<Rightarrow> messageAttributes option option" where
  "messageOf w c m = (case channelOf w c of None \<Rightarrow> None | Some ch \<Rightarrow> map_of (messages ch) m)"

definition storedReactions :: "world \<Rightarrow> string \<Rightarrow> string \<Rightarrow> (string \<rightharpoonup> string list)" where
  "storedReactions w c m = (case messageOf w c m of None \<Rightarrow> Map.empty | Some a \<Rightarrow> reactionsOf a)"

definition storedOtherKeys :: "world \<Rightarrow> string \<Rightarrow> string \<Rightarrow> (string \<rightharpoonup> jsval)" where
  "storedOtherKeys w c m =
     (case messageOf w c m of Some (Some a) \<Rightarrow> otherKeys a | _ \<Rightarrow> Map.empty)"

definition reactionUsers :: "world \<Rightarrow> string \<Rightarrow> string \<Rightarrow> string \<Rightarrow> string list" where
  "reactionUsers w c m r = (case storedReactions w c m r of None \<Rightarrow> [] | Some us \<Rightarrow> us)"

text \<open>
  New attributes keep every top-level key other than \<^verbatim>\<open>reactions\<close> and every
  reaction other than \<open>r\<close>; a world differs from another in at most the user list of
  reaction \<open>r\<close> of message \<open>m\<close> of channel \<open>c\<close> (and in the log of calls).
\<close>

definition keepsOtherEntries ::
  "string \<Rightarrow> messageAttributes option \<Rightarrow> messageAttributes \<Rightarrow> bool" where
  "keepsOtherEntries r a a1 =
     (otherKeys a1 = (case a of None \<Rightarrow> Map.empty | Some x \<Rightarrow> otherKeys x) \<and>
      (\<forall>k. k \<noteq> r \<longrightarrow> reactionsOf (Some a1) k = reactionsOf a k))"

definition onlyReactionChanged :: "world \<Rightarrow> world \<Rightarrow> string \<Rightarrow> string \<Rightarrow> string \<Rightarrow> bool" where
  "onlyReactionChanged w w1 c m r =
     (store w1 = store w \<and>
      storedOtherKeys w1 c m = storedOtherKeys w c m \<and>
      (\<forall>k. k \<noteq> r \<longrightarrow> storedReactions w1 c m k = storedReactions w c m k) \<and>
      (\<forall>c' m'. c' \<noteq> c \<or> m' \<noteq> m \<longrightarrow> messageOf w1 c' m' = messageOf w c' m'))"

section \<open>The log of a request\<close>

text \<open>
  The calls a request issued are those its final log holds beyond the log it started
  with. The predicates below sort the mutations of a log: membership and invitation
  creations, channel creations, channel removals.
\<close>

fun mutationOf :: "call \<Rightarrow> mutation" where
  "mutationOf (WithRetry mu) = mu"
| "mutationOf (Direct mu) = mu"

fun isMembershipMutation :: "mutation \<Rightarrow> bool" where
  "isMembershipMutation (CreateMember s i r) = True"
| "isMembershipMutation (CreateInvite s i r) = True"
| "isMembershipMutation mu = False"

fun isCreateChannel :: "mutation \<Rightarrow> bool" where
  "isCreateChannel (CreateChannel fname uname creator ty dm) = True"
| "isCreateChannel mu = False"

fun isRemoveChannel :: "mutation \<Rightarrow> bool" where
  "isRemoveChannel (RemoveChannel s) = True"
| "isRemoveChannel mu = False"

definition newCalls :: "world \<Rightarrow> world \<Rightarrow> call list" where
  "newCalls w w1 = drop (length (calls w)) (calls w1)"

definition creations :: "call list \<Rightarrow> nat" where
  "creations cs = length (filter (\<lambda>c. isCreateChannel (mutationOf c)) cs)"

definition channelCreated :: "env \<Rightarrow> call list \<Rightarrow> bool" where
  "channelCreated e cs = list_ex (\<lambda>c. isCreateChannel (mutationOf c) \<and> \<not> fails e (mutationOf c)) cs"

definition membershipFailed :: "env \<Rightarrow> call list \<Rightarrow> bool" where
  "membershipFailed e cs = list_ex (\<lambda>c. isMembershipMutation (mutationOf c) \<and> fails e (mutationOf c)) cs"

definition removalIssued :: "call list \<Rightarrow> bool" where
  "removalIssued cs = list_ex (\<lambda>c. isRemoveChannel (mutationOf c)) cs"

text \<open>
  A run from one world to another logged only calls with a given property.
\<close>

definition logged :: "(call \<Rightarrow> bool) \<Rightarrow> world \<Rightarrow> world \<Rightarrow> bool" where
  "logged P w w1 = (\<exists>cs. calls w1 = calls w @ cs \<and> list_all P cs)"

text \<open>
  The role assignment rule in the words of the specification: the admin role for the
  requester of a channel that is not a direct-message channel and for a participant
  whose resolved conference privilege is manager or admin, the user role otherwise.
\<close>

definition specRoleSid :: "bool \<Rightarrow> bool \<Rightarrow> bool \<Rightarrow> string \<Rightarrow> string \<Rightarrow> string" where
  "specRoleSid isRequester isDM privileged channelAdminRole channelUserRole =
     (if (isRequester \<and> \<not> isDM) \<or> privileged then channelAdminRole else channelUserRole)"

section \<open>A concrete conference\<close>

text \<open>
  The inputs at which the theorems below are instantiated: a conference with the
  profiles of Alice, Bob and Dave (Dave's account is a manager of the conference, the
  others hold no privilege), a private group channel of Alice and Bob, and the requests
  made of it.
\<close>

definition aliceProfile :: profile where
  "aliceProfile = \<lparr>profileId = ''alice'', profileConf = ''conf1'', profileUser = ''userA'', displayName = ''Alice''\<rparr>"

definition bobProfile :: profile where
  "bobProfile = \<lparr>profileId = ''bob'', profileConf = ''conf1'', profileUser = ''userB'', displayName = ''Bob''\<rparr>"

definition daveProfile :: profile where
  "daveProfile = \<lparr>profileId = ''dave'', profileConf = ''conf1'', profileUser = ''userM'', displayName = ''Dave''\<rparr>"

definition aliceContext :: requestContext where
  "aliceContext = \<lparr>conf = ''conf1'', userProfile = aliceProfile\<rparr>"

definition likedByBob :: messageAttributes where
  "likedByBob = \<lparr>reactions = Some [''like'' \<mapsto> [''bob'']], otherKeys = [''edited'' \<mapsto> JBool True]\<rparr>"

definition groupChannel :: channel where
  "groupChannel =
     \<lparr>sid = ''CH1'', uniqueName = ''alice-0000'', friendlyName = ''Coffee break'',
      createdBy = ''alice'', channelType = ''private'', isDMAttr = False,
      members = [(''alice'', ''RLadmin''), (''bob'', ''RLuser'')],
      invites = [(''carol'', ''RLuser'')],
      messages = [(''IM1'', Some likedByBob)]\<rparr>"

text \<open>
  Two more profiles, whose identities differ in one code unit, U+0001, which the
  collation of \<^verbatim>\<open>localeCompare\<close> ignores.
\<close>

definition eveProfile :: profile where
  "eveProfile = \<lparr>profileId = ''eve'', profileConf = ''conf1'', profileUser = ''userE'', displayName = ''Eve''\<rparr>"

definition shadowProfile :: profile where
  "shadowProfile =
     \<lparr>profileId = ''eve'' @ [CHR 0x01], profileConf = ''conf1'', profileUser = ''userS'',
      displayName = ''Eve''\<rparr>"

text \<open>
  The answers of \<^verbatim>\<open>localeCompare\<close> on the identities of this conference, which is
  all the examples ask of it. Two identities are compared by their places in
  \<open>conferenceOrder\<close>, the identities as \<^verbatim>\<open>localeCompare\<close> sorts them, after
  dropping U+0001: \<^verbatim>\<open>alice\<close> comes before \<^verbatim>\<open>bob\<close>, and \<^verbatim>\<open>eve\<close> and \<^verbatim>\<open>eve\<close>
  followed by U+0001 compare \<open>0\<close> either way round. This is not a model of the
  comparison on other strings, on which no example depends.
\<close>

definition conferenceOrder :: "string list" where
  "conferenceOrder = [''alice'', ''bob'', ''dave'', ''eve'']"

definition conferenceCompare :: "string \<Rightarrow> string \<Rightarrow> int" where
  "conferenceCompare a b =
     (let rank = (\<lambda>x. length (takeWhile (\<lambda>y. y \<noteq> filter (\<lambda>c. c \<noteq> CHR 0x01) x) conferenceOrder))
      in if rank a < rank b then - 1 else if rank b < rank a then 1 else 0)"

definition quietEnv :: env where
  "quietEnv =
     \<lparr>localeCompare = conferenceCompare,
      uuidv4 = ''1234'',
      privilege = (\<lambda>u c rs. u = ''userM''),
      fails = (\<lambda>mu. False),
      newSid = (\<lambda>n. ''CH'' @ replicate n (CHR ''I'')),
      newObjectId = (\<lambda>n. ''TC'' @ replicate n (CHR ''I''))\<rparr>"

definition groupWorld :: world where
  "groupWorld =
     \<lparr>provider = \<lparr>channels = [groupChannel], users = [(''alice'', ''Alice''), (''bob'', ''Bob''), (''carol'', ''Carol'')],
                  roles = [(''channel admin'', ''RLadmin''), (''channel user'', ''RLuser'')],
                  created = 1\<rparr>,
      store = \<lparr>profiles = [aliceProfile, bobProfile, daveProfile], textChats = [], saved = 0\<rparr>,
      calls = []\<rparr>"

definition likeBody :: reactionBody where
  "likeBody = \<lparr>bodyChannel = JStr ''CH1'', bodyMessage = JStr ''IM1'', bodyReaction = JStr ''like''\<rparr>"

definition emptyInviteBody :: createChatBody where
  "emptyInviteBody =
     \<lparr>bodyInvite = JArr [], bodyMode = JStr ''public'', bodyTitle = JStr ''Daily standup'',
      bodyForVideoRoom = Undefined\<rparr>"

definition selfInviteBody :: createChatBody where
  "selfInviteBody =
     \<lparr>bodyInvite = JArr [JStr ''alice''], bodyMode = JStr ''private'',
      bodyTitle = JStr ''Daily standup'', bodyForVideoRoom = Undefined\<rparr>"

definition dmChannel :: channel where
  "dmChannel =
     \<lparr>sid = ''CH2'', uniqueName = ''alice-bob'', friendlyName = ''alice-bob'',
      createdBy = ''system'', channelType = ''private'', isDMAttr = True,
      members = [(''alice'', ''RLuser'')], invites = [(''bob'', ''RLuser'')], messages = []\<rparr>"

definition dmWorld :: world where
  "dmWorld =
     groupWorld\<lparr>provider := (provider groupWorld)\<lparr>channels := [groupChannel, dmChannel], created := 2\<rparr>\<rparr>"

definition daveContext :: requestContext where
  "daveContext = \<lparr>conf = ''conf1'', userProfile = daveProfile\<rparr>"

definition inviteBobToDM :: inviteBody where
  "inviteBobToDM = \<lparr>bodyTargetIdentities = JArr [JStr ''bob''], bodyInviteChannel = JStr ''CH2''\<rparr>"

definition privateMirror :: textChat where
  "privateMirror =
     \<lparr>objectId = ''TC0'', conference = ''conf1'', twilioID = ''CH1'', autoWatch = False,
      mirrored = False, chatName = ''Coffee break'',
      chatACL = Some \<lparr>readAccess = {ConfRole ''conf1'' ''manager'', ConfRole ''conf1'' ''admin'',
                                     Account ''userA'', Account ''userB''},
                       writeAccess = {ConfRole ''conf1'' ''manager'', ConfRole ''conf1'' ''admin''}\<rparr>\<rparr>"

definition mirroredWorld :: world where
  "mirroredWorld = groupWorld\<lparr>store := (store groupWorld)\<lparr>textChats := [privateMirror], saved := 1\<rparr>\<rparr>"

definition inviteDaveBody :: inviteBody where
  "inviteDaveBody = \<lparr>bodyTargetIdentities = JArr [JStr ''dave''], bodyInviteChannel = JStr ''CH1''\<rparr>"

definition groupBody :: createChatBody where
  "groupBody =
     \<lparr>bodyInvite = JArr [JStr ''bob'', JStr ''alice'', JStr ''dave''], bodyMode = JStr ''public'',
      bodyTitle = JStr ''Daily standup'', bodyForVideoRoom = Undefined\<rparr>"

definition failingEnv :: env where
  "failingEnv =
     quietEnv\<lparr>fails := (\<lambda>mu. mu = CreateInvite ''CHI'' ''dave'' ''RLadmin'' \<or>
                              mu = CreateMember ''CH2'' ''bob'' ''RLadmin'')\<rparr>"

definition bobContext :: requestContext where
  "bobContext = \<lparr>conf = ''conf1'', userProfile = bobProfile\<rparr>"

definition dmToAliceBody :: createChatBody where
  "dmToAliceBody =
     \<lparr>bodyInvite = JArr [JStr ''alice''], bodyMode = JStr ''private'',
      bodyTitle = JStr ''Daily standup'', bodyForVideoRoom = Undefined\<rparr>"

definition dmToBobBody :: createChatBody where
  "dmToBobBody =
     \<lparr>bodyInvite = JArr [JStr ''bob''], bodyMode = JStr ''private'',
      bodyTitle = JStr ''Daily standup'', bodyForVideoRoom = Undefined\<rparr>"

text \<open>
  The same conference with the two profiles whose identities the comparison does not
  tell apart, and the direct-message request of each to the other.
\<close>

definition eveWorld :: world where
  "eveWorld = groupWorld\<lparr>store := (store groupWorld)\<lparr>profiles := [eveProfile, shadowProfile]\<rparr>\<rparr>"





definition inviteEveBody :: inviteBody where
  "inviteEveBody = \<lparr>bodyTargetIdentities = JArr [JStr ''eve''], bodyInviteChannel = JStr ''CH1''\<rparr>"

text \<open>
  The group channel with a message whose list for \<^verbatim>\<open>like\<close> holds Alice twice, and
  reactions named as properties that every plain object inherits.
\<close>

definition likedTwice :: messageAttributes where
  "likedTwice = \<lparr>reactions = Some [''like'' \<mapsto> [''alice'', ''alice'']], otherKeys = Map.empty\<rparr>"

definition twiceWorld :: world where
  "twiceWorld =
     groupWorld\<lparr>provider := (provider groupWorld)
       \<lparr>channels := [groupChannel\<lparr>messages := [(''IM1'', Some likedTwice)]\<rparr>]\<rparr>\<rparr>"

definition constructorBody :: reactionBody where
  "constructorBody =
     \<lparr>bodyChannel = JStr ''CH1'', bodyMessage = JStr ''IM1'', bodyReaction = JStr ''constructor''\<rparr>"

definition toStringBody :: reactionBody where
  "toStringBody =
     \<lparr>bodyChannel = JStr ''CH1'', bodyMessage = JStr ''IM1'', bodyReaction = JStr ''toString''\<rparr>"

section \<open>Reactions: the stored user lists\<close>

lemma find_map_sid:
  assumes "\<And>x. sid (f x) = sid x"
  shows "find (\<lambda>x. sid x = c) (map f xs) = map_option f (find (\<lambda>x. sid x = c) xs)"
  using assms by (induction xs) auto

lemma map_of_update_hit:
  "map_of xs m = Some v \<Longrightarrow>
   map_of (map (\<lambda>(k, v). if k = m then (k, Some a) else (k, v)) xs) m = Some (Some a)"
  by (induction xs) (auto split: if_splits)

lemma map_of_update_miss:
  "m' \<noteq> m \<Longrightarrow>
   map_of (map (\<lambda>(k, v). if k = m then (k, Some a) else (k, v)) xs) m' = map_of xs m'"
  by (induction xs) (auto split: if_splits)

lemma channelOf_update:
  "channelOf (w\<lparr>provider := effect e (UpdateMessage c m a) (provider w)\<rparr>) c' =
   map_option (\<lambda>x. if sid x = c
            then x\<lparr>messages := map (\<lambda>(k, v). if k = m then (k, Some a) else (k, v)) (messages x)\<rparr>
            else x) (channelOf w c')"
  unfolding channelOf_def by (simp add: find_map_sid)

lemmas [simp del] = effect.simps

lemma channelOf_sid: "channelOf w c = Some ch \<Longrightarrow> sid ch = c"
  by (auto simp: channelOf_def find_Some_iff)

lemma membersOf_update:
  "membersOf (w\<lparr>provider := effect e (UpdateMessage c m a) (provider w)\<rparr>) c' = membersOf w c'"
  by (simp add: membersOf_def channelOf_update split: option.splits)

lemma messageOf_update:
  assumes "messageOf w c m = Some v"
  shows "messageOf (w\<lparr>provider := effect e (UpdateMessage c m a) (provider w)\<rparr>) c' m' =
         (if c' = c \<and> m' = m then Some (Some a) else messageOf w c' m')"
proof (cases "channelOf w c'")
  case None
  then show ?thesis using assms by (auto simp: messageOf_def channelOf_update)
next
  case (Some ch)
  then have "sid ch = c'" by (rule channelOf_sid)
  then show ?thesis using assms Some
    by (auto simp: messageOf_def channelOf_update map_of_update_hit map_of_update_miss)
qed

lemma messageOf_calls [simp]: "messageOf (w\<lparr>calls := cs\<rparr>) c m = messageOf w c m"
  by (simp add: messageOf_def channelOf_def)

lemma membersOf_calls [simp]: "membersOf (w\<lparr>calls := cs\<rparr>) c = membersOf w c"
  by (simp add: membersOf_def channelOf_def)

lemma handleReaction_valid:
  assumes "nonEmptyString (bodyChannel body) = Some c"
      and "nonEmptyString (bodyMessage body) = Some m"
      and "nonEmptyString (bodyReaction body) = Some r"
      and "profileId (userProfile ctx) \<in> set (membersOf w c)"
      and "messageOf w c m = Some a"
  shows "handleReaction modify e (Some ctx) body w =
     (case modify (profileId (userProfile ctx)) r a of
        Inl err \<Rightarrow> (Forwarded err, w)
      | Inr None \<Rightarrow> (Sent 200 OkTrue, w)
      | Inr (Some a1) \<Rightarrow>
          (case callProvider e False (UpdateMessage c m a1) w of
             (False, w1) \<Rightarrow> (Forwarded ProviderError, w1)
           | (True, w1) \<Rightarrow> (Sent 200 OkTrue, w1)))"
  using assms
  by (auto simp: handleReaction_def membersOf_def messageOf_def channelOf_def split: option.splits)

lemma callProvider_update_ok:
  "\<not> fails e (UpdateMessage c m a) \<Longrightarrow>
   callProvider e False (UpdateMessage c m a) w =
     (True, w\<lparr>calls := calls w @ [Direct (UpdateMessage c m a)],
              provider := effect e (UpdateMessage c m a) (provider w)\<rparr>)"
  by (simp add: callProvider_def)

lemma world_upd_swap:
  "w\<lparr>calls := cs, provider := p\<rparr> = (w\<lparr>provider := p\<rparr>)\<lparr>calls := cs\<rparr>"
  by simp

lemma messageOf_after_update:
  assumes "messageOf w c m = Some v"
  shows "messageOf (w\<lparr>calls := cs, provider := effect e (UpdateMessage c m a) (provider w)\<rparr>) c' m' =
         (if c' = c \<and> m' = m then Some (Some a) else messageOf w c' m')"
  using messageOf_update [OF assms] by (simp only: world_upd_swap messageOf_calls)

lemma membersOf_after_update:
  "membersOf (w\<lparr>calls := cs, provider := effect e (UpdateMessage c m a) (provider w)\<rparr>) c' = membersOf w c'"
  using membersOf_update by (simp only: world_upd_swap membersOf_calls)

lemma reactionsOf_withReactions [simp]: "reactionsOf (Some (withReactions a rs)) = rs"
  by (simp add: reactionsOf_def withReactions_def split: option.splits)

lemma otherKeys_withReactions:
  "otherKeys (withReactions a rs) = (case a of None \<Rightarrow> Map.empty | Some x \<Rightarrow> otherKeys x)"
  by (simp add: withReactions_def split: option.splits)

text \<open>The pure read-modify-write, case by case.\<close>

lemma addReaction_absent:
  assumes "\<not> inheritedProperty r \<or> reactionsOf a r \<noteq> None"
      and "u \<notin> set (case reactionsOf a r of None \<Rightarrow> [] | Some us \<Rightarrow> us)"
  shows "addReaction u r a =
     Inr (Some (withReactions a
        ((reactionsOf a)(r \<mapsto> (case reactionsOf a r of None \<Rightarrow> [] | Some us \<Rightarrow> us) @ [u]))))"
  using assms by (cases "reactionsOf a r") (auto simp: addReaction_def reactionUsersOf_def Let_def)

lemma addReaction_present:
  assumes "u \<in> set (case reactionsOf a r of None \<Rightarrow> [] | Some us \<Rightarrow> us)"
  shows "addReaction u r a = Inr None"
  using assms by (cases "reactionsOf a r") (auto simp: addReaction_def reactionUsersOf_def Let_def)

lemma removeReaction_absent:
  assumes "\<not> inheritedProperty r \<or> reactionsOf a r \<noteq> None"
      and "u \<notin> set (case reactionsOf a r of None \<Rightarrow> [] | Some us \<Rightarrow> us)"
  shows "removeReaction u r a = Inr None"
  using assms by (cases "reactionsOf a r") (auto simp: removeReaction_def reactionUsersOf_def Let_def)

lemma removeReaction_present:
  assumes "u \<in> set (case reactionsOf a r of None \<Rightarrow> [] | Some us \<Rightarrow> us)"
  shows "removeReaction u r a =
     Inr (Some (withReactions a
        (let remaining = filter (\<lambda>x. x \<noteq> u) (case reactionsOf a r of None \<Rightarrow> [] | Some us \<Rightarrow> us)
         in if remaining = [] then (reactionsOf a)(r := None)
            else (reactionsOf a)(r \<mapsto> remaining))))"
  using assms by (cases "reactionsOf a r") (auto simp: removeReaction_def reactionUsersOf_def Let_def)

lemma reactionUsers_alt:
  "messageOf w c m = Some a \<Longrightarrow>
   reactionUsers w c m r = (case reactionsOf a r of None \<Rightarrow> [] | Some us \<Rightarrow> us)"
  by (simp add: reactionUsers_def storedReactions_def)

lemma addReaction_step:
  assumes "nonEmptyString (bodyChannel body) = Some c"
      and "nonEmptyString (bodyMessage body) = Some m"
      and "nonEmptyString (bodyReaction body) = Some r"
      and "profileId (userProfile ctx) \<in> set (membersOf w c)"
      and "messageOf w c m = Some a"
      and "\<And>x. \<not> fails e (UpdateMessage c m x)"
      and "\<not> inheritedProperty r \<or> reactionsOf a r \<noteq> None"
  shows "\<exists>w1 a1. handleAddReaction e (Some ctx) body w = (Sent 200 OkTrue, w1) \<and>
           membersOf w1 c = membersOf w c \<and> messageOf w1 c m = Some a1 \<and>
           (profileId (userProfile ctx) \<in> set (reactionUsers w c m r) \<longrightarrow> w1 = w) \<and>
           reactionUsers w1 c m r =
             (if profileId (userProfile ctx) \<in> set (reactionUsers w c m r)
              then reactionUsers w c m r
              else reactionUsers w c m r @ [profileId (userProfile ctx)])"
proof (cases "profileId (userProfile ctx) \<in> set (reactionUsers w c m r)")
  case True
  then have "addReaction (profileId (userProfile ctx)) r a = Inr None"
    using assms(5) by (simp add: addReaction_present reactionUsers_alt)
  then show ?thesis
    using True assms(5) by (simp add: handleAddReaction_def handleReaction_valid [OF assms(1-5)])
next
  case False
  let ?u = "profileId (userProfile ctx)"
  let ?a1 = "withReactions a ((reactionsOf a)(r \<mapsto> reactionUsers w c m r @ [?u]))"
  have "addReaction ?u r a = Inr (Some ?a1)"
    using False assms(5,7) by (simp add: addReaction_absent reactionUsers_alt)
  then have "handleAddReaction e (Some ctx) body w =
      (Sent 200 OkTrue, w\<lparr>calls := calls w @ [Direct (UpdateMessage c m ?a1)],
              provider := effect e (UpdateMessage c m ?a1) (provider w)\<rparr>)"
    using assms(6)
    by (simp add: handleAddReaction_def handleReaction_valid [OF assms(1-5)] callProvider_update_ok)
  moreover have "messageOf (w\<lparr>calls := calls w @ [Direct (UpdateMessage c m ?a1)],
              provider := effect e (UpdateMessage c m ?a1) (provider w)\<rparr>) c m = Some (Some ?a1)"
    using assms(5) by (simp add: messageOf_after_update)
  moreover from this have "reactionUsers (w\<lparr>calls := calls w @ [Direct (UpdateMessage c m ?a1)],
              provider := effect e (UpdateMessage c m ?a1) (provider w)\<rparr>) c m r =
            reactionUsers w c m r @ [?u]"
    by (simp add: reactionUsers_def storedReactions_def)
  ultimately show ?thesis
    using False by (simp add: membersOf_after_update)
qed

lemma removeReaction_step:
  assumes "nonEmptyString (bodyChannel body) = Some c"
      and "nonEmptyString (bodyMessage body) = Some m"
      and "nonEmptyString (bodyReaction body) = Some r"
      and "profileId (userProfile ctx) \<in> set (membersOf w c)"
      and "messageOf w c m = Some a"
      and "\<And>x. \<not> fails e (UpdateMessage c m x)"
      and "\<not> inheritedProperty r \<or> reactionsOf a r \<noteq> None"
  shows "\<exists>w1 a1. handleRemoveReaction e (Some ctx) body w = (Sent 200 OkTrue, w1) \<and>
           membersOf w1 c = membersOf w c \<and> messageOf w1 c m = Some a1 \<and>
           (profileId (userProfile ctx) \<notin> set (reactionUsers w c m r) \<longrightarrow> w1 = w) \<and>
           storedReactions w1 c m r =
             (if profileId (userProfile ctx) \<in> set (reactionUsers w c m r)
              then (if filter (\<lambda>x. x \<noteq> profileId (userProfile ctx)) (reactionUsers w c m r) = []
                    then None
                    else Some (filter (\<lambda>x. x \<noteq> profileId (userProfile ctx)) (reactionUsers w c m r)))
              else storedReactions w c m r)"
proof (cases "profileId (userProfile ctx) \<in> set (reactionUsers w c m r)")
  case False
  then have "removeReaction (profileId (userProfile ctx)) r a = Inr None"
    using assms(5,7) by (simp add: removeReaction_absent reactionUsers_alt)
  then show ?thesis
    using False assms(5) by (simp add: handleRemoveReaction_def handleReaction_valid [OF assms(1-5)])
next
  case True
  let ?u = "profileId (userProfile ctx)"
  let ?rem = "filter (\<lambda>x. x \<noteq> ?u) (reactionUsers w c m r)"
  let ?a1 = "withReactions a (if ?rem = [] then (reactionsOf a)(r := None)
            else (reactionsOf a)(r \<mapsto> ?rem))"
  have "removeReaction ?u r a = Inr (Some ?a1)"
    using True assms(5) by (simp add: removeReaction_present reactionUsers_alt Let_def)
  then have "handleRemoveReaction e (Some ctx) body w =
      (Sent 200 OkTrue, w\<lparr>calls := calls w @ [Direct (UpdateMessage c m ?a1)],
              provider := effect e (UpdateMessage c m ?a1) (provider w)\<rparr>)"
    using assms(6)
    by (simp add: handleRemoveReaction_def handleReaction_valid [OF assms(1-5)] callProvider_update_ok)
  moreover have "messageOf (w\<lparr>calls := calls w @ [Direct (UpdateMessage c m ?a1)],
              provider := effect e (UpdateMessage c m ?a1) (provider w)\<rparr>) c m = Some (Some ?a1)"
    using assms(5) by (simp add: messageOf_after_update)
  moreover from this have "storedReactions (w\<lparr>calls := calls w @ [Direct (UpdateMessage c m ?a1)],
              provider := effect e (UpdateMessage c m ?a1) (provider w)\<rparr>) c m r =
            (if ?rem = [] then None else Some ?rem)"
    by (simp add: storedReactions_def)
  ultimately show ?thesis
    using True by (simp add: membersOf_after_update)
qed

lemma count_list_member_once: "x \<in> set xs \<Longrightarrow> count_list xs x \<le> 1 \<Longrightarrow> count_list xs x = 1"
  using count_list_0_iff [of xs x] by linarith

text \<open>
  Claim C9, for the messages and reactions on which it holds. Take a message of a
  channel the requesting user is a member of, whose list for the reaction holds the
  user at most once, a reaction that has an entry in the message or whose name is not
  a property inherited from \<^verbatim>\<open>Object.prototype\<close>, and a provider that accepts the
  message update. Then
  \<^verbatim>\<open>addReaction\<close> answers \<^verbatim>\<open>ok\<close>; a second \<^verbatim>\<open>addReaction\<close> with the same user and
  reaction answers \<^verbatim>\<open>ok\<close> and leaves the world as it is, with the user in the
  reaction's list exactly once; and a following \<^verbatim>\<open>removeReaction\<close> answers
  \<^verbatim>\<open>ok\<close>, leaves the list without the user, and leaves no entry at all for the
  reaction when no other user is in the list.
\<close>

theorem reaction_added_once_and_removed:
  assumes "nonEmptyString (bodyChannel body) = Some c"
      and "nonEmptyString (bodyMessage body) = Some m"
      and "nonEmptyString (bodyReaction body) = Some r"
      and "profileId (userProfile ctx) \<in> set (membersOf w c)"
      and "messageOf w c m = Some a"
      and "\<And>x. \<not> fails e (UpdateMessage c m x)"
      and "\<not> inheritedProperty r \<or> storedReactions w c m r \<noteq> None"
      and "count_list (reactionUsers w c m r) (profileId (userProfile ctx)) \<le> 1"
  shows "\<exists>w1 w3.
           handleAddReaction e (Some ctx) body w = (Sent 200 OkTrue, w1) \<and>
           handleAddReaction e (Some ctx) body w1 = (Sent 200 OkTrue, w1) \<and>
           count_list (reactionUsers w1 c m r) (profileId (userProfile ctx)) = 1 \<and>
           handleRemoveReaction e (Some ctx) body w1 = (Sent 200 OkTrue, w3) \<and>
           profileId (userProfile ctx) \<notin> set (reactionUsers w3 c m r) \<and>
           storedReactions w3 c m r =
             (if filter (\<lambda>x. x \<noteq> profileId (userProfile ctx)) (reactionUsers w c m r) = []
              then None
              else Some (filter (\<lambda>x. x \<noteq> profileId (userProfile ctx)) (reactionUsers w c m r)))"
proof -
  let ?u = "profileId (userProfile ctx)"
  let ?us = "reactionUsers w c m r"
  have own: "\<not> inheritedProperty r \<or> reactionsOf a r \<noteq> None"
    using assms(5,7) by (simp add: storedReactions_def)
  obtain w1 a1 where
    h1: "handleAddReaction e (Some ctx) body w = (Sent 200 OkTrue, w1)" and
    m1: "membersOf w1 c = membersOf w c" and
    a1: "messageOf w1 c m = Some a1" and
    u1: "reactionUsers w1 c m r = (if ?u \<in> set ?us then ?us else ?us @ [?u])"
    using addReaction_step [OF assms(1-6) own] by blast
  have in1: "?u \<in> set (reactionUsers w1 c m r)" using u1 by simp
  have mem1: "?u \<in> set (membersOf w1 c)" using m1 assms(4) by simp
  have own1: "\<not> inheritedProperty r \<or> reactionsOf a1 r \<noteq> None"
    using in1 a1 by (cases "reactionsOf a1 r") (auto simp: reactionUsers_def storedReactions_def)
  obtain w2 where
    h2: "handleAddReaction e (Some ctx) body w1 = (Sent 200 OkTrue, w2)" and
    same: "?u \<in> set (reactionUsers w1 c m r) \<longrightarrow> w2 = w1"
    using addReaction_step [OF assms(1-3) mem1 a1 assms(6) own1] by blast
  have h2': "handleAddReaction e (Some ctx) body w1 = (Sent 200 OkTrue, w1)"
    using h2 same in1 by simp
  have cnt: "count_list (reactionUsers w1 c m r) ?u = 1"
  proof (cases "?u \<in> set ?us")
    case True
    then show ?thesis using u1 assms(8) by (simp add: count_list_member_once)
  next
    case False
    then show ?thesis using u1 by (simp add: count_list_0_iff)
  qed
  have flt: "filter (\<lambda>x. x \<noteq> ?u) (reactionUsers w1 c m r) = filter (\<lambda>x. x \<noteq> ?u) ?us"
    using u1 by simp
  obtain w3 where
    h3: "handleRemoveReaction e (Some ctx) body w1 = (Sent 200 OkTrue, w3)" and
    s3: "storedReactions w3 c m r =
           (if filter (\<lambda>x. x \<noteq> ?u) ?us = [] then None else Some (filter (\<lambda>x. x \<noteq> ?u) ?us))"
    using removeReaction_step [OF assms(1-3) mem1 a1 assms(6) own1] in1 flt by auto
  have out3: "?u \<notin> set (reactionUsers w3 c m r)"
    using s3 by (simp add: reactionUsers_def)
  show ?thesis using h1 h2' cnt h3 out3 s3 by blast
qed

lemma addReaction_frame: "addReaction u r a = Inr (Some a1) \<Longrightarrow> keepsOtherEntries r a a1"
  by (auto simp: addReaction_def keepsOtherEntries_def Let_def otherKeys_withReactions
           split: sum.splits if_splits)

lemma removeReaction_frame: "removeReaction u r a = Inr (Some a1) \<Longrightarrow> keepsOtherEntries r a a1"
  by (auto simp: removeReaction_def keepsOtherEntries_def Let_def otherKeys_withReactions
           split: sum.splits if_splits)

lemma callProvider_cases:
  "callProvider e retry mu w = (ok, w1) \<Longrightarrow>
   store w1 = store w \<and>
   (provider w1 = provider w \<or> provider w1 = effect e mu (provider w))"
  by (auto simp: callProvider_def Let_def split: if_splits)

lemma messageOf_provider_cong:
  "provider w1 = provider w \<Longrightarrow> messageOf w1 c m = messageOf w c m"
  by (simp add: messageOf_def channelOf_def)

lemma messageOf_effect:
  assumes "messageOf w c m = Some v" and "provider w1 = effect e (UpdateMessage c m a) (provider w)"
  shows "messageOf w1 c' m' = (if c' = c \<and> m' = m then Some (Some a) else messageOf w c' m')"
proof -
  have "messageOf w1 c' m' =
        messageOf (w\<lparr>provider := effect e (UpdateMessage c m a) (provider w)\<rparr>) c' m'"
    using assms(2) by (simp add: messageOf_def channelOf_def)
  then show ?thesis using messageOf_update [OF assms(1)] by simp
qed

lemma handleReaction_frame:
  assumes "nonEmptyString (bodyChannel body) = Some c"
      and "nonEmptyString (bodyMessage body) = Some m"
      and "nonEmptyString (bodyReaction body) = Some r"
      and "profileId (userProfile ctx) \<in> set (membersOf w c)"
      and "messageOf w c m = Some a"
      and "\<And>a1. modify (profileId (userProfile ctx)) r a = Inr (Some a1) \<Longrightarrow> keepsOtherEntries r a a1"
      and "handleReaction modify e (Some ctx) body w = (out, w1)"
  shows "store w1 = store w \<and>
         storedOtherKeys w1 c m = storedOtherKeys w c m \<and>
         (\<forall>k. k \<noteq> r \<longrightarrow> storedReactions w1 c m k = storedReactions w c m k) \<and>
         (\<forall>c' m'. c' \<noteq> c \<or> m' \<noteq> m \<longrightarrow> messageOf w1 c' m' = messageOf w c' m')"
proof (cases "modify (profileId (userProfile ctx)) r a")
  case (Inl err)
  then show ?thesis using assms(7) by (simp add: handleReaction_valid [OF assms(1-5)])
next
  case (Inr res)
  show ?thesis
  proof (cases res)
    case None
    then show ?thesis using Inr assms(7) by (simp add: handleReaction_valid [OF assms(1-5)])
  next
    case (Some a1)
    obtain ok where cp: "callProvider e False (UpdateMessage c m a1) w = (ok, w1)"
      using Inr Some assms(7)
      by (auto simp: handleReaction_valid [OF assms(1-5)] split: prod.splits bool.splits)
    have keep: "keepsOtherEntries r a a1" using assms(6) Inr Some by simp
    from callProvider_cases [OF cp] have st: "store w1 = store w"
      and pr: "provider w1 = provider w \<or> provider w1 = effect e (UpdateMessage c m a1) (provider w)"
      by simp_all
    from pr show ?thesis
    proof
      assume "provider w1 = provider w"
      then have "\<And>c' m'. messageOf w1 c' m' = messageOf w c' m'"
        by (rule messageOf_provider_cong)
      then show ?thesis using st by (simp add: storedOtherKeys_def storedReactions_def)
    next
      assume "provider w1 = effect e (UpdateMessage c m a1) (provider w)"
      then have mo: "\<And>c' m'. messageOf w1 c' m' =
            (if c' = c \<and> m' = m then Some (Some a1) else messageOf w c' m')"
        using messageOf_effect [OF assms(5)] by simp
      show ?thesis using st keep assms(5)
        by (auto simp: mo storedOtherKeys_def storedReactions_def keepsOtherEntries_def
                 reactionsOf_def split: option.splits)
    qed
  qed
qed

text \<open>
  The frame of the two handlers. For a message of a channel the requesting user is a
  member of, \<^verbatim>\<open>addReaction\<close> and \<^verbatim>\<open>removeReaction\<close> change at most the user list of
  the named reaction: the document store, every other top-level key of the attributes,
  every other reaction's list and every other message stay as they were. When the user
  is already in the list, \<^verbatim>\<open>addReaction\<close> answers \<^verbatim>\<open>ok\<close> and issues no call at
  all; when the user is not in the list, and the reaction has an entry in the message
  or its name is not an inherited property name, so does \<^verbatim>\<open>removeReaction\<close>.
\<close>

theorem reaction_handlers_frame:
  assumes "nonEmptyString (bodyChannel body) = Some c"
      and "nonEmptyString (bodyMessage body) = Some m"
      and "nonEmptyString (bodyReaction body) = Some r"
      and "profileId (userProfile ctx) \<in> set (membersOf w c)"
      and "messageOf w c m = Some a"
  shows "(case handleAddReaction e (Some ctx) body w of
            (out, w1) \<Rightarrow>
              onlyReactionChanged w w1 c m r \<and>
              (profileId (userProfile ctx) \<in> set (reactionUsers w c m r) \<longrightarrow>
                 out = Sent 200 OkTrue \<and> w1 = w)) \<and>
         (case handleRemoveReaction e (Some ctx) body w of
            (out, w2) \<Rightarrow>
              onlyReactionChanged w w2 c m r \<and>
              (profileId (userProfile ctx) \<notin> set (reactionUsers w c m r) \<and>
               (\<not> inheritedProperty r \<or> storedReactions w c m r \<noteq> None) \<longrightarrow>
                 out = Sent 200 OkTrue \<and> w2 = w))"
proof -
  let ?u = "profileId (userProfile ctx)"
  obtain out w1 where h1: "handleAddReaction e (Some ctx) body w = (out, w1)" by fastforce
  obtain out' w2 where h2: "handleRemoveReaction e (Some ctx) body w = (out', w2)" by fastforce
  have f1: "onlyReactionChanged w w1 c m r"
    unfolding onlyReactionChanged_def
    using handleReaction_frame [OF assms(1-5) addReaction_frame] h1
    by (simp add: handleAddReaction_def)
  have f2: "onlyReactionChanged w w2 c m r"
    unfolding onlyReactionChanged_def
    using handleReaction_frame [OF assms(1-5) removeReaction_frame] h2
    by (simp add: handleRemoveReaction_def)
  have n1: "out = Sent 200 OkTrue \<and> w1 = w" if "?u \<in> set (reactionUsers w c m r)"
  proof -
    have "addReaction ?u r a = Inr None"
      using that assms(5) by (simp add: addReaction_present reactionUsers_alt)
    then show ?thesis
      using h1 by (simp add: handleAddReaction_def handleReaction_valid [OF assms(1-5)])
  qed
  have n2: "out' = Sent 200 OkTrue \<and> w2 = w"
    if "?u \<notin> set (reactionUsers w c m r)"
      and "\<not> inheritedProperty r \<or> storedReactions w c m r \<noteq> None"
  proof -
    have "\<not> inheritedProperty r \<or> reactionsOf a r \<noteq> None"
      using that(2) assms(5) by (simp add: storedReactions_def)
    then have "removeReaction ?u r a = Inr None"
      using that(1) assms(5) by (simp add: removeReaction_absent reactionUsers_alt)
    then show ?thesis
      using h2 by (simp add: handleRemoveReaction_def handleReaction_valid [OF assms(1-5)])
  qed
  show ?thesis using h1 h2 f1 f2 n1 n2 by simp
qed

lemmas example_defs = aliceProfile_def aliceContext_def likedByBob_def groupChannel_def
  quietEnv_def groupWorld_def likeBody_def

theorem reaction_added_once_and_removed_witness:
  "\<exists>w1 w3.
     handleAddReaction quietEnv (Some aliceContext) likeBody groupWorld = (Sent 200 OkTrue, w1) \<and>
     handleAddReaction quietEnv (Some aliceContext) likeBody w1 = (Sent 200 OkTrue, w1) \<and>
     count_list (reactionUsers w1 ''CH1'' ''IM1'' ''like'') ''alice'' = 1 \<and>
     handleRemoveReaction quietEnv (Some aliceContext) likeBody w1 = (Sent 200 OkTrue, w3) \<and>
     ''alice'' \<notin> set (reactionUsers w3 ''CH1'' ''IM1'' ''like'') \<and>
     storedReactions w3 ''CH1'' ''IM1'' ''like'' = Some [''bob'']"
proof -
  have mem: "profileId (userProfile aliceContext) \<in> set (membersOf groupWorld ''CH1'')"
    by (simp add: example_defs membersOf_def channelOf_def)
  have msg: "messageOf groupWorld ''CH1'' ''IM1'' = Some (Some likedByBob)"
    by (simp add: groupWorld_def groupChannel_def messageOf_def channelOf_def)
  have us: "reactionUsers groupWorld ''CH1'' ''IM1'' ''like'' = [''bob'']"
    by (simp add: reactionUsers_def storedReactions_def msg reactionsOf_def likedByBob_def)
  have own: "\<not> inheritedProperty ''like'' \<or> storedReactions groupWorld ''CH1'' ''IM1'' ''like'' \<noteq> None"
    by (simp add: inheritedProperty_def)
  have u: "profileId (userProfile aliceContext) = ''alice''"
    by (simp add: aliceContext_def aliceProfile_def)
  show ?thesis
    using reaction_added_once_and_removed [of likeBody "''CH1''" "''IM1''" "''like''"
        aliceContext groupWorld "Some likedByBob" quietEnv, OF _ _ _ mem msg _ own]
    by (simp add: us u) (simp add: likeBody_def quietEnv_def)
qed

lemma reaction_handlers_frame_at_like:
  "onlyReactionChanged groupWorld
     (snd (handleAddReaction quietEnv (Some aliceContext) likeBody groupWorld)) ''CH1'' ''IM1'' ''like'' \<and>
   handleRemoveReaction quietEnv (Some aliceContext) likeBody groupWorld = (Sent 200 OkTrue, groupWorld)"
proof -
  have mem: "profileId (userProfile aliceContext) \<in> set (membersOf groupWorld ''CH1'')"
    by (simp add: example_defs membersOf_def channelOf_def)
  have msg: "messageOf groupWorld ''CH1'' ''IM1'' = Some (Some likedByBob)"
    by (simp add: groupWorld_def groupChannel_def messageOf_def channelOf_def)
  have us: "reactionUsers groupWorld ''CH1'' ''IM1'' ''like'' = [''bob'']"
    by (simp add: reactionUsers_def storedReactions_def msg reactionsOf_def likedByBob_def)
  have own: "\<not> inheritedProperty ''like''"
    by (simp add: inheritedProperty_def)
  have u: "profileId (userProfile aliceContext) = ''alice''"
    by (simp add: aliceContext_def aliceProfile_def)
  have b: "nonEmptyString (bodyChannel likeBody) = Some ''CH1''"
    "nonEmptyString (bodyMessage likeBody) = Some ''IM1''"
    "nonEmptyString (bodyReaction likeBody) = Some ''like''"
    by (simp_all add: likeBody_def)
  show ?thesis
    using reaction_handlers_frame [OF b mem msg, of quietEnv] own
    by (simp add: us u case_prod_beta prod_eq_iff)
qed

text \<open>
  Claim C9 as it is stated, of any message and any reaction, fails at two inputs. On a
  message whose list for \<^verbatim>\<open>like\<close> holds Alice twice, \<^verbatim>\<open>addReaction\<close> by Alice
  answers \<^verbatim>\<open>ok\<close> and leaves the world as it is, however often it is called: Alice
  stays in the list twice. For the reaction \<^verbatim>\<open>constructor\<close>, which passes the
  validation, both handlers forward a \<^verbatim>\<open>TypeError\<close> and write nothing: Alice is
  never put on the list.
\<close>

theorem reaction_list_not_repaired:
  "''alice'' \<in> set (membersOf twiceWorld ''CH1'') \<and>
   handleAddReaction quietEnv (Some aliceContext) likeBody twiceWorld = (Sent 200 OkTrue, twiceWorld) \<and>
   count_list (reactionUsers twiceWorld ''CH1'' ''IM1'' ''like'') ''alice'' = 2 \<and>
   ''alice'' \<in> set (membersOf groupWorld ''CH1'') \<and>
   handleAddReaction quietEnv (Some aliceContext) constructorBody groupWorld =
     (Forwarded TypeError, groupWorld) \<and>
   handleRemoveReaction quietEnv (Some aliceContext) constructorBody groupWorld =
     (Forwarded TypeError, groupWorld) \<and>
   count_list (reactionUsers groupWorld ''CH1'' ''IM1'' ''constructor'') ''alice'' = 0"
  by (simp add: handleAddReaction_def handleRemoveReaction_def handleReaction_def
        addReaction_def removeReaction_def reactionsOf_def reactionUsersOf_def
        inheritedProperty_def membersOf_def channelOf_def messageOf_def reactionUsers_def
        storedReactions_def twiceWorld_def likedTwice_def constructorBody_def example_defs)

text \<open>
  Claim C10 says that \<^verbatim>\<open>removeReaction\<close> answers \<^verbatim>\<open>ok\<close> when the requesting user
  is not in the reaction's list. For a reaction named as a property that a plain object
  inherits, here \<^verbatim>\<open>toString\<close>, \<^verbatim>\<open>reactions[reaction]\<close> is the inherited function
  and \<^verbatim>\<open>reactionUsers.includes\<close> is not callable: Alice is a member of the channel
  and is not in the list of \<^verbatim>\<open>toString\<close>, the name passes the validation, and the
  handler forwards a \<^verbatim>\<open>TypeError\<close> instead of answering \<^verbatim>\<open>ok\<close>.
\<close>

theorem remove_reaction_inherited_name:
  "''alice'' \<in> set (membersOf groupWorld ''CH1'') \<and>
   ''alice'' \<notin> set (reactionUsers groupWorld ''CH1'' ''IM1'' ''toString'') \<and>
   nonEmptyString (bodyReaction toStringBody) = Some ''toString'' \<and>
   handleRemoveReaction quietEnv (Some aliceContext) toStringBody groupWorld =
     (Forwarded TypeError, groupWorld)"
  by (simp add: handleRemoveReaction_def handleReaction_def removeReaction_def reactionsOf_def
        reactionUsersOf_def inheritedProperty_def membersOf_def channelOf_def messageOf_def
        reactionUsers_def storedReactions_def toStringBody_def example_defs)

theorem remove_reaction_inherited_name_witness:
  "fst (handleRemoveReaction quietEnv (Some aliceContext) toStringBody groupWorld) =
     Forwarded TypeError"
  using remove_reaction_inherited_name by simp

section \<open>The unique name of a direct-message channel\<close>

lemma trim_standup: "trim ''Daily standup'' = ''Daily standup''"
  by (simp add: trim_def isWhiteSpace_def)

text \<open>
  The name of a direct-message channel puts the requester first exactly when
  \<^verbatim>\<open>localeCompare\<close> answers \<open>-1\<close> for the requester against the invitee, and the
  invitee first otherwise.
\<close>

lemma dm_unique_name_ordered:
  assumes "localeCompare e a b = - 1" and "localeCompare e b a \<noteq> - 1"
      and "profileId pa = a" and "profileId pb = b"
  shows "uniqueNameFor e True a [pb] = take 64 (a @ ''-'' @ b)"
    and "uniqueNameFor e True b [pa] = take 64 (a @ ''-'' @ b)"
  using assms by (simp_all add: uniqueNameFor_def dmUniqueName_def)

lemma dm_unique_name_unordered:
  assumes "localeCompare e a b \<noteq> - 1" and "localeCompare e b a \<noteq> - 1"
      and "profileId pa = a" and "profileId pb = b"
  shows "uniqueNameFor e True a [pb] = take 64 (b @ ''-'' @ a)"
    and "uniqueNameFor e True b [pa] = take 64 (a @ ''-'' @ b)"
  using assms by (simp_all add: uniqueNameFor_def dmUniqueName_def)




section \<open>The access list of a mirror record\<close>

lemmas acl_ops = newACL_def setReadAccess_def setWriteAccess_def setPublicReadAccess_def
  setPublicWriteAccess_def setRoleReadAccess_def setRoleWriteAccess_def getRoleByName_def

lemma grantProfileRead_read:
  "readAccess (grantProfileRead cnf st a i) =
   readAccess a \<union> {Account (profileUser p) |p. getUserProfileByID i cnf st = Some p}"
  by (auto simp: grantProfileRead_def setReadAccess_def split: option.splits)

lemma grantProfileRead_write: "writeAccess (grantProfileRead cnf st a i) = writeAccess a"
  by (simp add: grantProfileRead_def setReadAccess_def split: option.splits)

lemma readAccess_grants:
  "readAccess (foldl (grantProfileRead cnf st) a ids) =
   readAccess a \<union> {Account (profileUser p) |p i. i \<in> set ids \<and> getUserProfileByID i cnf st = Some p}"
proof (induction ids arbitrary: a)
  case Nil
  then show ?case by simp
next
  case (Cons i ids)
  have "readAccess (foldl (grantProfileRead cnf st) a (i # ids)) =
        readAccess (grantProfileRead cnf st a i) \<union>
        {Account (profileUser p) |p j. j \<in> set ids \<and> getUserProfileByID j cnf st = Some p}"
    by (simp add: Cons.IH)
  also have "\<dots> = readAccess a \<union>
        {Account (profileUser p) |p j. j \<in> set (i # ids) \<and> getUserProfileByID j cnf st = Some p}"
    unfolding grantProfileRead_read by auto
  finally show ?case .
qed

lemma writeAccess_grants:
  "writeAccess (foldl (grantProfileRead cnf st) a ids) = writeAccess a"
  by (induction ids arbitrary: a) (simp_all add: grantProfileRead_write)

lemma rebuiltACL_private_read:
  "readAccess (rebuiltACL cnf st True ids) =
   {ConfRole cnf ''manager'', ConfRole cnf ''admin''} \<union>
   {Account (profileUser p) |p i. i \<in> set ids \<and> getUserProfileByID i cnf st = Some p}"
  by (auto simp: rebuiltACL_def Let_def readAccess_grants acl_ops)

lemma rebuiltACL_write:
  "writeAccess (rebuiltACL cnf st isPrivate ids) = {ConfRole cnf ''manager'', ConfRole cnf ''admin''}"
  by (auto simp: rebuiltACL_def Let_def writeAccess_grants acl_ops)

lemma rebuiltACL_public_read:
  "readAccess (rebuiltACL cnf st False ids) =
   {ConfRole cnf ''manager'', ConfRole cnf ''admin'', ConfRole cnf ''attendee''}"
  by (auto simp: rebuiltACL_def Let_def acl_ops)

text \<open>
  Saving a record puts it in the store: the record the store holds under its id
  afterwards is the one that was saved.
\<close>

lemma find_replaced:
  "objectId t \<in> set (map objectId xs) \<Longrightarrow>
   find (\<lambda>x. objectId x = objectId t) (map (\<lambda>x. if objectId x = objectId t then t else x) xs) =
   Some t"
  by (induction xs) auto

lemma find_appended:
  "objectId t \<notin> set (map objectId xs) \<Longrightarrow>
   find (\<lambda>x. objectId x = objectId t) (xs @ [t]) = Some t"
  by (induction xs) auto

lemma saveTextChat_stored:
  "find (\<lambda>x. objectId x = objectId t) (textChats (store (saveTextChat t w))) = Some t"
  by (simp add: saveTextChat_def find_replaced find_appended)

text \<open>
  When the caller gives the privacy flag, as \<^verbatim>\<open>handleCreateChat\<close> does, the rebuild
  for a private channel saves an access list that grants read access to the manager
  and admin roles of the conference and to the accounts of exactly those current
  members and invitees whose identity resolves to a profile (an identity without a
  profile is left out), and write access to the manager and admin roles only. For a
  public channel the attendee role gets read access and no account is listed. The
  public has neither read nor write access in either list. The store holds the record
  with the new list afterwards.
\<close>

lemma access_list_stored:
  assumes "listMembers w (sid newChannel) = Some memberIds"
      and "listInvites w (sid newChannel) = Some invitedIds"
      and "updateTextChatACLs newChannel tc (Some isPrivate) w = Some w1"
  shows "map_option chatACL (find (\<lambda>x. objectId x = objectId tc) (textChats (store w1))) =
         Some (Some (rebuiltACL (conference tc) (store w) isPrivate
                       (if isPrivate then memberIds @ invitedIds else [])))"
proof (cases isPrivate)
  case True
  then have "w1 = saveTextChat
      (tc\<lparr>chatACL := Some (rebuiltACL (conference tc) (store w) True (memberIds @ invitedIds))\<rparr>) w"
    using assms by (simp add: updateTextChatACLs_def)
  then show ?thesis
    using True
      saveTextChat_stored [of "tc\<lparr>chatACL := Some (rebuiltACL (conference tc) (store w) True
                                                    (memberIds @ invitedIds))\<rparr>" w]
    by simp
next
  case False
  then have "w1 = saveTextChat
      (tc\<lparr>chatACL := Some (rebuiltACL (conference tc) (store w) False [])\<rparr>) w"
    using assms by (simp add: updateTextChatACLs_def)
  then show ?thesis
    using False
      saveTextChat_stored [of "tc\<lparr>chatACL := Some (rebuiltACL (conference tc) (store w) False [])\<rparr>" w]
    by simp
qed


lemma access_list_rebuild:
  assumes "listMembers w (sid newChannel) = Some memberIds"
      and "listInvites w (sid newChannel) = Some invitedIds"
      and "private = rebuiltACL (conference tc) (store w) True (memberIds @ invitedIds)"
      and "public = rebuiltACL (conference tc) (store w) False []"
  shows "updateTextChatACLs newChannel tc (Some True) w =
           Some (saveTextChat (tc\<lparr>chatACL := Some private\<rparr>) w) \<and>
         readAccess private =
           {ConfRole (conference tc) ''manager'', ConfRole (conference tc) ''admin''} \<union>
           {Account (profileUser p) |p i.
              i \<in> set memberIds \<union> set invitedIds \<and>
              getUserProfileByID i (conference tc) (store w) = Some p} \<and>
         writeAccess private =
           {ConfRole (conference tc) ''manager'', ConfRole (conference tc) ''admin''} \<and>
         updateTextChatACLs newChannel tc (Some False) w =
           Some (saveTextChat (tc\<lparr>chatACL := Some public\<rparr>) w) \<and>
         readAccess public =
           {ConfRole (conference tc) ''manager'', ConfRole (conference tc) ''admin'',
            ConfRole (conference tc) ''attendee''} \<and>
         writeAccess public =
           {ConfRole (conference tc) ''manager'', ConfRole (conference tc) ''admin''} \<and>
         Everyone \<notin> readAccess private \<and> Everyone \<notin> writeAccess private \<and>
         Everyone \<notin> readAccess public \<and> Everyone \<notin> writeAccess public"
proof -
  have "updateTextChatACLs newChannel tc (Some True) w =
        Some (saveTextChat (tc\<lparr>chatACL := Some private\<rparr>) w)"
    using assms by (simp add: updateTextChatACLs_def)
  moreover have "updateTextChatACLs newChannel tc (Some False) w =
        Some (saveTextChat (tc\<lparr>chatACL := Some public\<rparr>) w)"
    using assms by (simp add: updateTextChatACLs_def)
  moreover have "readAccess private =
      {ConfRole (conference tc) ''manager'', ConfRole (conference tc) ''admin''} \<union>
      {Account (profileUser p) |p i.
         i \<in> set memberIds \<union> set invitedIds \<and>
         getUserProfileByID i (conference tc) (store w) = Some p}"
    using assms(3) by (simp add: rebuiltACL_private_read)
  ultimately show ?thesis
    using assms(3,4) by (simp add: rebuiltACL_write rebuiltACL_public_read)
qed

lemma access_list_rebuild_at_group:
  "readAccess (rebuiltACL ''conf1'' (store groupWorld) True [''alice'', ''bob'', ''carol'']) =
     {ConfRole ''conf1'' ''manager'', ConfRole ''conf1'' ''admin'', Account ''userA'', Account ''userB''} \<and>
   updateTextChatACLs groupChannel privateMirror (Some False) groupWorld =
     Some (saveTextChat
       (privateMirror\<lparr>chatACL := Some (rebuiltACL ''conf1'' (store groupWorld) False [])\<rparr>) groupWorld)"
proof -
  have m: "listMembers groupWorld (sid groupChannel) = Some [''alice'', ''bob'']"
    by (simp add: listMembers_def groupWorld_def groupChannel_def)
  have i: "listInvites groupWorld (sid groupChannel) = Some [''carol'']"
    by (simp add: listInvites_def groupWorld_def groupChannel_def)
  have c: "conference privateMirror = ''conf1''" by (simp add: privateMirror_def)
  have g: "{Account (profileUser p) |p i.
              i \<in> set [''alice'', ''bob''] \<union> set [''carol''] \<and>
              getUserProfileByID i ''conf1'' (store groupWorld) = Some p} =
           {Account ''userA'', Account ''userB''}"
  proof -
    have la: "getUserProfileByID ''alice'' ''conf1'' (store groupWorld) = Some aliceProfile"
      and lb: "getUserProfileByID ''bob'' ''conf1'' (store groupWorld) = Some bobProfile"
      and lc: "getUserProfileByID ''carol'' ''conf1'' (store groupWorld) = None"
      by (simp_all add: getUserProfileByID_def groupWorld_def aliceProfile_def bobProfile_def
            daveProfile_def)
    have ua: "profileUser aliceProfile = ''userA''" and ub: "profileUser bobProfile = ''userB''"
      by (simp_all add: aliceProfile_def bobProfile_def)
    show ?thesis
    proof (rule set_eqI, rule iffI)
      fix x
      assume "x \<in> {Account (profileUser p) |p i.
              i \<in> set [''alice'', ''bob''] \<union> set [''carol''] \<and>
              getUserProfileByID i ''conf1'' (store groupWorld) = Some p}"
      then obtain p i where x: "x = Account (profileUser p)"
        and i: "i = ''alice'' \<or> i = ''bob'' \<or> i = ''carol''"
        and l: "getUserProfileByID i ''conf1'' (store groupWorld) = Some p"
        by auto
      from i show "x \<in> {Account ''userA'', Account ''userB''}"
      proof (elim disjE)
        assume "i = ''alice''"
        then have "p = aliceProfile" using l la by simp
        then show ?thesis using x ua by simp
      next
        assume "i = ''bob''"
        then have "p = bobProfile" using l lb by simp
        then show ?thesis using x ub by simp
      next
        assume "i = ''carol''"
        then show ?thesis using l lc by simp
      qed
    next
      fix x
      assume "x \<in> {Account ''userA'', Account ''userB''}"
      then have "x = Account (profileUser aliceProfile) \<or> x = Account (profileUser bobProfile)"
        using ua ub by auto
      then show "x \<in> {Account (profileUser p) |p i.
              i \<in> set [''alice'', ''bob''] \<union> set [''carol''] \<and>
              getUserProfileByID i ''conf1'' (store groupWorld) = Some p}"
      proof
        assume "x = Account (profileUser aliceProfile)"
        then show ?thesis using la
          by (intro CollectI exI [of _ aliceProfile] exI [of _ "''alice''"]) simp
      next
        assume "x = Account (profileUser bobProfile)"
        then show ?thesis using lb
          by (intro CollectI exI [of _ bobProfile] exI [of _ "''bob''"]) simp
      qed
    qed
  qed
  note all = access_list_rebuild [OF m i refl refl, of privateMirror, unfolded c]
  have r: "readAccess (rebuiltACL ''conf1'' (store groupWorld) True ([''alice'', ''bob''] @ [''carol''])) =
      {ConfRole ''conf1'' ''manager'', ConfRole ''conf1'' ''admin''} \<union>
      {Account ''userA'', Account ''userB''}"
    using all [THEN conjunct2, THEN conjunct1] unfolding g .
  have u: "updateTextChatACLs groupChannel privateMirror (Some False) groupWorld =
     Some (saveTextChat
       (privateMirror\<lparr>chatACL := Some (rebuiltACL ''conf1'' (store groupWorld) False [])\<rparr>) groupWorld)"
    using all [THEN conjunct2, THEN conjunct2, THEN conjunct2, THEN conjunct1] .
  show ?thesis using r u by auto
qed

text \<open>
  The flag derived from a record is the opposite of the flag its access list was
  built with: the derivation reads "the attendee role may read" as "private", and the
  rebuild grants the attendee role read access exactly when the flag says "not
  private".
\<close>

lemma derived_flag_inverted:
  "derivedIsPrivate (tc\<lparr>chatACL := Some (rebuiltACL (conference tc) st isPrivate ids)\<rparr>) = (\<not> isPrivate)"
  by (cases isPrivate)
     (auto simp: derivedIsPrivate_def getRoleReadAccess_def getRoleByName_def
        rebuiltACL_private_read rebuiltACL_public_read)


text \<open>
  Claim C6 says that a rebuild without a privacy flag keeps a public record public
  and a private record private. The source derives the flag the other way round. Here
  \<^verbatim>\<open>inviteToChat\<close> runs on a private group channel whose mirror record is private
  (the attendee role has no read access): the request succeeds, and afterwards the
  attendee role has read access to the record.
\<close>

theorem invite_rebuilds_private_mirror_as_public:
  "map (\<lambda>t. map_option (\<lambda>a. getRoleReadAccess a (getRoleByName ''attendee'' ''conf1'')) (chatACL t))
       (textChats (store mirroredWorld)) = [Some False] \<and>
   fst (handleInviteToChat quietEnv (Some aliceContext) inviteDaveBody mirroredWorld) =
     Sent 200 EmptyObject \<and>
   map (\<lambda>t. map_option (\<lambda>a. getRoleReadAccess a (getRoleByName ''attendee'' ''conf1'')) (chatACL t))
       (textChats (store (snd (handleInviteToChat quietEnv (Some aliceContext) inviteDaveBody
                                 mirroredWorld)))) = [Some True]"
  by (simp add: handleInviteToChat_def inviteDaveBody_def aliceContext_def aliceProfile_def
        bobProfile_def daveProfile_def mirroredWorld_def groupWorld_def groupChannel_def
        quietEnv_def privateMirror_def getUserProfileByID_def inviteIfAbsent_def
        inviteeRoleSid_def isUserInRoles_def callWithRetry_def callProvider_def effect.simps
        mirrorAfterInvite_def getOrCreateTextChat_def updateTextChatACLs_def derivedIsPrivate_def
        getRoleReadAccess_def getRoleByName_def rebuiltACL_def acl_ops saveTextChat_def Let_def)

theorem invite_rebuilds_private_mirror_as_public_witness:
  "fst (handleInviteToChat quietEnv (Some aliceContext) inviteDaveBody mirroredWorld) =
     Sent 200 EmptyObject"
  by (rule invite_rebuilds_private_mirror_as_public [THEN conjunct2, THEN conjunct1])

text \<open>
  Claim C7 says that the rebuild for a private channel grants read access to exactly
  the members and invitees that resolve to profiles, and to the managers and admins.
  That is what the rebuild does when it is given the flag. \<^verbatim>\<open>handleInviteToChat\<close>
  calls it without the flag, and the flag derived from a private record says "not
  private": after Alice invited Dave to the private group channel, whose members Alice
  and Bob and whose new invitee Dave resolve to profiles and accounts, the record the
  store holds grants read access to the manager, admin and attendee roles of the
  conference and to no account.
\<close>

theorem invite_rebuild_lists_no_account:
  "channelType groupChannel = ''private'' \<and>
   map (\<lambda>i. map_option profileUser (getUserProfileByID i ''conf1'' (store mirroredWorld)))
       [''alice'', ''bob'', ''carol'', ''dave''] =
     [Some ''userA'', Some ''userB'', None, Some ''userM''] \<and>
   map (\<lambda>c. (map fst (members c), map fst (invites c)))
       (channels (provider (snd (handleInviteToChat quietEnv (Some aliceContext) inviteDaveBody
                                   mirroredWorld)))) =
     [([''alice'', ''bob''], [''carol'', ''dave''])] \<and>
   map (\<lambda>t. (objectId t, twilioID t, map_option readAccess (chatACL t)))
       (textChats (store (snd (handleInviteToChat quietEnv (Some aliceContext) inviteDaveBody
                                 mirroredWorld)))) =
     [(''TC0'', ''CH1'',
       Some {ConfRole ''conf1'' ''manager'', ConfRole ''conf1'' ''admin'',
             ConfRole ''conf1'' ''attendee''})]"
  by (simp add: handleInviteToChat_def inviteDaveBody_def aliceContext_def aliceProfile_def
        bobProfile_def daveProfile_def mirroredWorld_def groupWorld_def groupChannel_def
        quietEnv_def privateMirror_def getUserProfileByID_def inviteIfAbsent_def
        inviteeRoleSid_def isUserInRoles_def callWithRetry_def callProvider_def effect.simps
        mirrorAfterInvite_def getOrCreateTextChat_def updateTextChatACLs_def derivedIsPrivate_def
        getRoleReadAccess_def getRoleByName_def rebuiltACL_def acl_ops saveTextChat_def Let_def
        insert_commute)

theorem invite_rebuild_lists_no_account_witness:
  "map (\<lambda>t. (objectId t, twilioID t, map_option readAccess (chatACL t)))
       (textChats (store (snd (handleInviteToChat quietEnv (Some aliceContext) inviteDaveBody
                                 mirroredWorld)))) =
     [(''TC0'', ''CH1'',
       Some {ConfRole ''conf1'' ''manager'', ConfRole ''conf1'' ''admin'',
             ConfRole ''conf1'' ''attendee''})]"
  by (rule invite_rebuild_lists_no_account [THEN conjunct2, THEN conjunct2, THEN conjunct2])

section \<open>Requests without invitees\<close>

text \<open>
  Claim C5 says that \<^verbatim>\<open>createChat\<close> answers 400 when the invite list is empty once
  the requester's own id is removed. \<^verbatim>\<open>handleCreateChat\<close> filters the list and then
  goes on to the mode check without looking at its length. With an empty list, and
  with a list that holds only the requester, the handler creates a channel, adds the
  requester as its member and answers 200.
\<close>

theorem create_chat_without_invitees:
  "fst (handleCreateChat quietEnv (Some aliceContext) emptyInviteBody groupWorld) =
     Sent 200 (ChatCreated ''CHI'' ''TC'') \<and>
   calls (snd (handleCreateChat quietEnv (Some aliceContext) emptyInviteBody groupWorld)) =
     [WithRetry (CreateChannel ''Daily standup'' ''alice-1234'' ''alice'' ''public'' False),
      WithRetry (CreateMember ''CHI'' ''alice'' ''RLadmin'')] \<and>
   fst (handleCreateChat quietEnv (Some aliceContext) selfInviteBody groupWorld) =
     Sent 200 (ChatCreated ''CHI'' ''TC'')"
  by (simp add: handleCreateChat_def validateCreateChat_def trim_standup emptyInviteBody_def
        selfInviteBody_def
        aliceContext_def aliceProfile_def groupWorld_def groupChannel_def quietEnv_def
        provisionChat_def isDMRequest_def uniqueNameFor_def callWithRetry_def callProvider_def
        freshChannel_def newChannelPath_def ensureTwilioUsersExist_def requesterRoleSid_def
        isUserInRoles_def
        mirrorAndRespond_def getOrCreateTextChat_def updateTextChatACLs_def saveTextChat_def
        listMembers_def listInvites_def effect.simps Let_def)


theorem create_chat_without_invitees_witness:
  "fst (handleCreateChat quietEnv (Some aliceContext) emptyInviteBody groupWorld) =
     Sent 200 (ChatCreated ''CHI'' ''TC'')"
  by (rule create_chat_without_invitees [THEN conjunct1])

section \<open>Inviting to a direct-message channel\<close>

text \<open>
  Claim C8. On a service that has both channel roles, an \<^verbatim>\<open>inviteToChat\<close> request
  that names a channel whose attributes say \<^verbatim>\<open>isDM\<close> is answered with status 400 and
  leaves the provider, the document store and the log of calls as they were, whether
  or not the requester is a member of the channel. When the request passes the
  validation, the body of the answer is the text about direct-message chats.
\<close>

theorem invite_to_dm_rejected:
  assumes "bodyInviteChannel body = JStr s"
      and "find (\<lambda>c. sid c = s) (channels (provider w)) = Some ch"
      and "isDMAttr ch"
      and "map_of (roles (provider w)) ''channel admin'' = Some channelAdminRole"
      and "map_of (roles (provider w)) ''channel user'' = Some channelUserRole"
  shows "(\<exists>msg. handleInviteToChat e (Some ctx) body w = (Sent 400 msg, w)) \<and>
         (\<forall>elems ps.
            bodyTargetIdentities body = JArr elems \<and> list_all isString elems \<and> s \<noteq> [] \<and>
            filter (\<lambda>x. x \<noteq> profileId (userProfile ctx)) (stringsOf elems) \<noteq> [] \<and>
            those (map (\<lambda>i. getUserProfileByID i (conf ctx) (store w))
                       (filter (\<lambda>x. x \<noteq> profileId (userProfile ctx)) (stringsOf elems))) = Some ps
            \<longrightarrow> handleInviteToChat e (Some ctx) body w =
                  (Sent 400 (PlainText ''Cannot invite more users to a DM chat.''), w))"
  using assms
  by (auto simp: handleInviteToChat_def Let_def split: jsval.splits option.splits)

theorem invite_to_dm_rejected_witness:
  "handleInviteToChat quietEnv (Some daveContext) inviteBobToDM dmWorld =
     (Sent 400 (PlainText ''Cannot invite more users to a DM chat.''), dmWorld) \<and>
   ''dave'' \<notin> set (membersOf dmWorld ''CH2'')"
proof -
  have c: "bodyInviteChannel inviteBobToDM = JStr ''CH2''" by (simp add: inviteBobToDM_def)
  have f: "find (\<lambda>c. sid c = ''CH2'') (channels (provider dmWorld)) = Some dmChannel"
    by (simp add: dmWorld_def groupWorld_def groupChannel_def dmChannel_def)
  have d: "isDMAttr dmChannel" by (simp add: dmChannel_def)
  have r: "map_of (roles (provider dmWorld)) ''channel admin'' = Some ''RLadmin''"
    "map_of (roles (provider dmWorld)) ''channel user'' = Some ''RLuser''"
    by (simp_all add: dmWorld_def groupWorld_def)
  have v: "bodyTargetIdentities inviteBobToDM = JArr [JStr ''bob''] \<and> list_all isString [JStr ''bob''] \<and>
     ''CH2'' \<noteq> [] \<and>
     filter (\<lambda>x. x \<noteq> profileId (userProfile daveContext)) (stringsOf [JStr ''bob'']) \<noteq> [] \<and>
     those (map (\<lambda>i. getUserProfileByID i (conf daveContext) (store dmWorld))
       (filter (\<lambda>x. x \<noteq> profileId (userProfile daveContext)) (stringsOf [JStr ''bob'']))) = Some [bobProfile]"
    by (simp add: inviteBobToDM_def daveContext_def daveProfile_def dmWorld_def groupWorld_def
          getUserProfileByID_def aliceProfile_def bobProfile_def)
  have m: "''dave'' \<notin> set (membersOf dmWorld ''CH2'')"
    by (simp add: membersOf_def channelOf_def f dmChannel_def)
  show ?thesis
    using invite_to_dm_rejected [OF c f d r, of quietEnv daveContext] v m by blast
qed

section \<open>The calls a run logs\<close>

lemma logged_refl: "logged P w w"
  by (simp add: logged_def)

lemma logged_trans: "logged P w w1 \<Longrightarrow> logged P w1 w2 \<Longrightarrow> logged P w w2"
  by (auto simp: logged_def)

lemma mirrorAndRespond_calls:
  "mirrorAndRespond e ctx newChannel isDM isPrivate w = (out, w1) \<Longrightarrow>
   calls w1 = calls w \<and> provider w1 = provider w"
  by (auto simp: mirrorAndRespond_def getOrCreateTextChat_def updateTextChatACLs_def
        saveTextChat_def Let_def split: option.splits if_splits prod.splits)


section \<open>The roles of members and invitees\<close>

text \<open>
  The value of \<^verbatim>\<open>userIsManager\<close> is a promise, whatever the privilege of the
  account: the requester's membership and every invitation get the admin role, in a
  direct-message channel as in any other.
\<close>

lemma requesterRoleSid_admin:
  "requesterRoleSid e ctx isDM channelAdminRole channelUserRole = channelAdminRole"
  by (simp add: requesterRoleSid_def isUserInRoles_def)

lemma inviteeRoleSid_admin:
  "inviteeRoleSid e ctx p channelAdminRole channelUserRole = channelAdminRole"
  by (simp add: inviteeRoleSid_def isUserInRoles_def)

text \<open>
  Claim C4 says that a participant whose resolved conference privilege is neither
  manager nor admin gets the channel-user role, unless it is the requester of a channel
  that is not a direct-message channel. Alice, Bob and Eve hold no privilege in the
  conference. When Alice asks for a direct-message channel with Bob, the handler
  creates the channel, makes Alice a member with the admin role and invites Bob with
  the admin role; when Alice invites Eve to the group channel, the invitation carries
  the admin role. The rule gives all three the user role: the handlers test the promise
  that \<^verbatim>\<open>isUserInRoles\<close> returns, not the privilege it resolves to.
\<close>

theorem unprivileged_participants_get_admin_role:
  "\<not> privilege quietEnv (profileUser aliceProfile) ''conf1'' [''admin'', ''manager''] \<and>
   \<not> privilege quietEnv (profileUser bobProfile) ''conf1'' [''admin'', ''manager''] \<and>
   fst (handleCreateChat quietEnv (Some aliceContext) dmToBobBody groupWorld) =
     Sent 200 (ChatCreated ''CHI'' ''TC'') \<and>
   newCalls groupWorld (snd (handleCreateChat quietEnv (Some aliceContext) dmToBobBody groupWorld)) =
     [WithRetry (CreateChannel ''alice-bob'' ''alice-bob'' ''system'' ''private'' True),
      WithRetry (CreateMember ''CHI'' ''alice'' ''RLadmin''),
      WithRetry (CreateInvite ''CHI'' ''bob'' ''RLadmin'')] \<and>
   specRoleSid True True
     (privilege quietEnv (profileUser aliceProfile) ''conf1'' [''admin'', ''manager''])
     ''RLadmin'' ''RLuser'' = ''RLuser'' \<and>
   specRoleSid False True
     (privilege quietEnv (profileUser bobProfile) ''conf1'' [''admin'', ''manager''])
     ''RLadmin'' ''RLuser'' = ''RLuser'' \<and>
   \<not> privilege quietEnv (profileUser eveProfile) ''conf1'' [''admin'', ''manager''] \<and>
   fst (handleInviteToChat quietEnv (Some aliceContext) inviteEveBody eveWorld) =
     Sent 200 EmptyObject \<and>
   newCalls eveWorld (snd (handleInviteToChat quietEnv (Some aliceContext) inviteEveBody eveWorld)) =
     [WithRetry (CreateInvite ''CH1'' ''eve'' ''RLadmin'')] \<and>
   specRoleSid False False
     (privilege quietEnv (profileUser eveProfile) ''conf1'' [''admin'', ''manager''])
     ''RLadmin'' ''RLuser'' = ''RLuser''"
  by (simp add: handleCreateChat_def validateCreateChat_def trim_standup getUserProfileByID_def
        newCalls_def specRoleSid_def
        provisionChat_def isDMRequest_def uniqueNameFor_def dmUniqueName_def callWithRetry_def
        callProvider_def freshChannel_def newChannelPath_def ensureTwilioUsersExist_def
        requesterRoleSid_def inviteeRoleSid_def isUserInRoles_def mirrorAndRespond_def
        getOrCreateTextChat_def updateTextChatACLs_def saveTextChat_def listMembers_def
        listInvites_def effect.simps Let_def conferenceCompare_def conferenceOrder_def
        aliceContext_def aliceProfile_def bobProfile_def daveProfile_def groupWorld_def
        groupChannel_def quietEnv_def dmToBobBody_def
        handleInviteToChat_def inviteIfAbsent_def mirrorAfterInvite_def derivedIsPrivate_def
        getRoleReadAccess_def getRoleByName_def inviteEveBody_def eveWorld_def eveProfile_def
        shadowProfile_def)

theorem unprivileged_participants_get_admin_role_witness:
  "newCalls groupWorld (snd (handleCreateChat quietEnv (Some aliceContext) dmToBobBody groupWorld)) =
     [WithRetry (CreateChannel ''alice-bob'' ''alice-bob'' ''system'' ''private'' True),
      WithRetry (CreateMember ''CHI'' ''alice'' ''RLadmin''),
      WithRetry (CreateInvite ''CHI'' ''bob'' ''RLadmin'')]"
  by (rule unprivileged_participants_get_admin_role
        [THEN conjunct2, THEN conjunct2, THEN conjunct2, THEN conjunct1])

section \<open>Compensation after a failed reconciliation\<close>

lemma logged_mono: "logged P w w1 \<Longrightarrow> (\<And>c. P c \<Longrightarrow> Q c) \<Longrightarrow> logged Q w w1"
  by (auto simp: logged_def list_all_iff)

lemma callProvider_step:
  assumes "callProvider e retry mu w = (ok, w1)"
      and "\<not> isCreateChannel mu" and "\<not> isRemoveChannel mu"
  shows "logged (\<lambda>c. \<not> isCreateChannel (mutationOf c) \<and> \<not> isRemoveChannel (mutationOf c) \<and>
                      (ok \<longrightarrow> \<not> fails e (mutationOf c))) w w1"
  using assms by (auto simp: callProvider_def logged_def Let_def split: if_splits)

lemma promiseAll_steps:
  assumes "\<And>x v ok v1. x \<in> set xs \<Longrightarrow> f x v = (ok, v1) \<Longrightarrow> logged (\<lambda>c. Q c \<and> (ok \<longrightarrow> R c)) v v1"
      and "promiseAll f xs w = (ok, w1)"
  shows "logged (\<lambda>c. Q c \<and> (ok \<longrightarrow> R c)) w w1"
  using assms
proof (induction xs arbitrary: w ok w1)
  case Nil
  then show ?case by (simp add: logged_refl)
next
  case (Cons x xs)
  obtain ok1 v1 where f: "f x w = (ok1, v1)" by fastforce
  obtain ok2 v2 where r: "promiseAll f xs v1 = (ok2, v2)" by fastforce
  have res: "w1 = v2" "ok = (ok1 \<and> ok2)" using Cons.prems(2) f r by simp_all
  have "logged (\<lambda>c. Q c \<and> (ok1 \<longrightarrow> R c)) w v1" using Cons.prems(1) [of x w ok1 v1] f by simp
  then have a: "logged (\<lambda>c. Q c \<and> (ok \<longrightarrow> R c)) w v1"
    by (rule logged_mono) (simp add: res)
  have "logged (\<lambda>c. Q c \<and> (ok2 \<longrightarrow> R c)) v1 v2"
  proof (rule Cons.IH [OF _ r])
    fix y v ok' v'
    assume "y \<in> set xs" and "f y v = (ok', v')"
    then show "logged (\<lambda>c. Q c \<and> (ok' \<longrightarrow> R c)) v v'" using Cons.prems(1) [of y v ok' v'] by simp
  qed
  then have b: "logged (\<lambda>c. Q c \<and> (ok \<longrightarrow> R c)) v1 v2"
    by (rule logged_mono) (simp add: res)
  show ?case using a b res(1) logged_trans by blast
qed

lemma promiseAll_path_steps:
  assumes "\<And>x v ok v1. x \<in> set xs \<Longrightarrow> f x v = (ok, v1) \<Longrightarrow>
             logged (\<lambda>c. \<not> isCreateChannel (mutationOf c) \<and> \<not> isRemoveChannel (mutationOf c) \<and>
                          (ok \<longrightarrow> \<not> fails e (mutationOf c))) v v1"
      and "promiseAll f xs w = (ok, w1)"
  shows "logged (\<lambda>c. \<not> isCreateChannel (mutationOf c) \<and> \<not> isRemoveChannel (mutationOf c) \<and>
                      (ok \<longrightarrow> \<not> fails e (mutationOf c))) w w1"
proof -
  have "logged (\<lambda>c. (\<not> isCreateChannel (mutationOf c) \<and> \<not> isRemoveChannel (mutationOf c)) \<and>
                      (ok \<longrightarrow> \<not> fails e (mutationOf c))) w w1"
  proof (rule promiseAll_steps [OF _ assms(2)])
    fix x v ok' v1
    assume "x \<in> set xs" and "f x v = (ok', v1)"
    then have "logged (\<lambda>c. \<not> isCreateChannel (mutationOf c) \<and> \<not> isRemoveChannel (mutationOf c) \<and>
                          (ok' \<longrightarrow> \<not> fails e (mutationOf c))) v v1"
      by (rule assms(1))
    then show "logged (\<lambda>c. (\<not> isCreateChannel (mutationOf c) \<and> \<not> isRemoveChannel (mutationOf c)) \<and>
                      (ok' \<longrightarrow> \<not> fails e (mutationOf c))) v v1"
      by (rule logged_mono) simp
  qed
  then show ?thesis by (rule logged_mono) simp
qed

lemma steps_trans:
  assumes "logged (\<lambda>c. \<not> isCreateChannel (mutationOf c) \<and> \<not> isRemoveChannel (mutationOf c) \<and>
                      (ok1 \<longrightarrow> \<not> fails e (mutationOf c))) w v"
      and "logged (\<lambda>c. \<not> isCreateChannel (mutationOf c) \<and> \<not> isRemoveChannel (mutationOf c) \<and>
                      (ok2 \<longrightarrow> \<not> fails e (mutationOf c))) v w1"
      and "ok \<Longrightarrow> ok1 \<and> ok2"
  shows "logged (\<lambda>c. \<not> isCreateChannel (mutationOf c) \<and> \<not> isRemoveChannel (mutationOf c) \<and>
                      (ok \<longrightarrow> \<not> fails e (mutationOf c))) w w1"
proof -
  have a: "logged (\<lambda>c. \<not> isCreateChannel (mutationOf c) \<and> \<not> isRemoveChannel (mutationOf c) \<and>
                      (ok \<longrightarrow> \<not> fails e (mutationOf c))) w v"
    using assms(1) by (rule logged_mono) (use assms(3) in auto)
  have b: "logged (\<lambda>c. \<not> isCreateChannel (mutationOf c) \<and> \<not> isRemoveChannel (mutationOf c) \<and>
                      (ok \<longrightarrow> \<not> fails e (mutationOf c))) v w1"
    using assms(2) by (rule logged_mono) (use assms(3) in auto)
  show ?thesis using a b by (rule logged_trans)
qed

lemma inviteIfAbsent_steps:
  assumes "inviteIfAbsent e ctx s a u ms is p v = (ok, v1)"
  shows "logged (\<lambda>c. \<not> isCreateChannel (mutationOf c) \<and> \<not> isRemoveChannel (mutationOf c) \<and>
                      (ok \<longrightarrow> \<not> fails e (mutationOf c))) v v1"
proof (cases "profileId p \<notin> set ms \<and> profileId p \<notin> set is")
  case True
  then have "callProvider e True (CreateInvite s (profileId p) (inviteeRoleSid e ctx p a u)) v = (ok, v1)"
    using assms by (simp add: inviteIfAbsent_def callWithRetry_def)
  then show ?thesis by (rule callProvider_step) simp_all
next
  case False
  then have "v1 = v" using assms by (auto simp: inviteIfAbsent_def)
  then show ?thesis by (simp add: logged_refl)
qed

lemma existingChannelPath_steps:
  assumes "existingChannelPath e ctx isDM a u ps ch w = (ok, w1)"
  shows "logged (\<lambda>c. \<not> isCreateChannel (mutationOf c) \<and> \<not> isRemoveChannel (mutationOf c) \<and>
                      (ok \<longrightarrow> \<not> fails e (mutationOf c))) w w1"
proof -
  let ?first = "if profileId (userProfile ctx) \<notin> set (map fst (members ch))
               then callWithRetry e
                      (CreateMember (sid ch) (profileId (userProfile ctx))
                         (requesterRoleSid e ctx isDM a u)) w
               else (True, w)"
  obtain ok0 v where f: "?first = (ok0, v)" by fastforce
  have l0: "logged (\<lambda>c. \<not> isCreateChannel (mutationOf c) \<and> \<not> isRemoveChannel (mutationOf c) \<and>
                      (ok0 \<longrightarrow> \<not> fails e (mutationOf c))) w v"
  proof (cases "profileId (userProfile ctx) \<notin> set (map fst (members ch))")
    case True
    then have "callProvider e True (CreateMember (sid ch) (profileId (userProfile ctx))
                         (requesterRoleSid e ctx isDM a u)) w = (ok0, v)"
      using f by (simp add: callWithRetry_def)
    then show ?thesis by (rule callProvider_step) simp_all
  next
    case False
    then have "v = w" using f by simp
    then show ?thesis by (simp add: logged_refl)
  qed
  show ?thesis
  proof (cases ok0)
    case False
    then have "w1 = v" "ok = False" using assms f by (simp_all add: existingChannelPath_def Let_def)
    then show ?thesis using l0 by (auto elim: logged_mono)
  next
    case True
    then have r: "promiseAll (inviteIfAbsent e ctx (sid ch) a u (map fst (members ch))
                      (map fst (invites ch))) ps v = (ok, w1)"
      using assms f by (simp add: existingChannelPath_def Let_def)
    have "logged (\<lambda>c. \<not> isCreateChannel (mutationOf c) \<and> \<not> isRemoveChannel (mutationOf c) \<and>
                      (ok \<longrightarrow> \<not> fails e (mutationOf c))) v w1"
      by (rule promiseAll_path_steps [OF _ r]) (rule inviteIfAbsent_steps)
    with l0 show ?thesis by (rule steps_trans) (simp add: True)
  qed
qed


lemma ensureTwilioUsersExist_steps:
  assumes "ensureTwilioUsersExist e ps w = (ok, w1)"
  shows "logged (\<lambda>c. \<not> isCreateChannel (mutationOf c) \<and> \<not> isRemoveChannel (mutationOf c) \<and>
                      (ok \<longrightarrow> \<not> fails e (mutationOf c))) w w1"
proof (rule promiseAll_path_steps [OF _ assms [unfolded ensureTwilioUsersExist_def Let_def]])
  fix x v ok' v1
  assume run: "(if profileId x \<notin> set (map fst (users (provider w)))
          then callProvider e False (CreateUser (profileId x) (displayName x)) v
          else (True, v)) = (ok', v1)"
  show "logged (\<lambda>c. \<not> isCreateChannel (mutationOf c) \<and> \<not> isRemoveChannel (mutationOf c) \<and>
                      (ok' \<longrightarrow> \<not> fails e (mutationOf c))) v v1"
  proof (cases "profileId x \<notin> set (map fst (users (provider w)))")
    case True
    then have "callProvider e False (CreateUser (profileId x) (displayName x)) v = (ok', v1)"
      using run by simp
    then show ?thesis by (rule callProvider_step) simp_all
  next
    case False
    then have "v1 = v" using run by simp
    then show ?thesis by (simp add: logged_refl)
  qed
qed

lemma newChannelPath_steps:
  assumes "newChannelPath e ctx isDM a u ps ch w = (ok, w1)"
  shows "logged (\<lambda>c. \<not> isCreateChannel (mutationOf c) \<and> \<not> isRemoveChannel (mutationOf c) \<and>
                      (ok \<longrightarrow> \<not> fails e (mutationOf c))) w w1"
proof -
  obtain ok0 v0 where f0: "ensureTwilioUsersExist e (ps @ [userProfile ctx]) w = (ok0, v0)"
    by fastforce
  note l0 = ensureTwilioUsersExist_steps [OF f0]
  show ?thesis
  proof (cases ok0)
    case False
    then have "w1 = v0" "ok = False" using assms f0 by (simp_all add: newChannelPath_def)
    then show ?thesis using l0 by (auto elim: logged_mono)
  next
    case True
    obtain ok1 v1 where f1: "callProvider e True
        (CreateMember (sid ch) (profileId (userProfile ctx)) (requesterRoleSid e ctx isDM a u)) v0 =
        (ok1, v1)" by fastforce
    have l1: "logged (\<lambda>c. \<not> isCreateChannel (mutationOf c) \<and> \<not> isRemoveChannel (mutationOf c) \<and>
                      (ok1 \<longrightarrow> \<not> fails e (mutationOf c))) v0 v1"
      using f1 by (rule callProvider_step) simp_all
    show ?thesis
    proof (cases ok1)
      case False
      then have "w1 = v1" "ok = False"
        using assms f0 f1 True by (simp_all add: newChannelPath_def callWithRetry_def)
      then show ?thesis using steps_trans [OF l0 l1, of False] by simp
    next
      case ok1: True
      have r: "promiseAll (\<lambda>p. callWithRetry e
                 (CreateInvite (sid ch) (profileId p) (inviteeRoleSid e ctx p a u))) ps v1 = (ok, w1)"
        using assms f0 f1 True ok1 by (simp add: newChannelPath_def callWithRetry_def)
      have l2: "logged (\<lambda>c. \<not> isCreateChannel (mutationOf c) \<and> \<not> isRemoveChannel (mutationOf c) \<and>
                      (ok \<longrightarrow> \<not> fails e (mutationOf c))) v1 w1"
      proof (rule promiseAll_path_steps [OF _ r])
        fix p v ok' v'
        assume "callWithRetry e (CreateInvite (sid ch) (profileId p) (inviteeRoleSid e ctx p a u)) v =
                  (ok', v')"
        then have "inviteIfAbsent e ctx (sid ch) a u [] [] p v = (ok', v')"
          by (simp add: inviteIfAbsent_def)
        then show "logged (\<lambda>c. \<not> isCreateChannel (mutationOf c) \<and> \<not> isRemoveChannel (mutationOf c) \<and>
                      (ok' \<longrightarrow> \<not> fails e (mutationOf c))) v v'"
          by (rule inviteIfAbsent_steps)
      qed
      have l01: "logged (\<lambda>c. \<not> isCreateChannel (mutationOf c) \<and> \<not> isRemoveChannel (mutationOf c) \<and>
                      (True \<longrightarrow> \<not> fails e (mutationOf c))) w v1"
        using steps_trans [OF l0 l1, of True] True ok1 by simp
      show ?thesis using steps_trans [OF l01 l2, of ok] by simp
    qed
  qed
qed


lemma callProvider_result:
  "callProvider e retry mu w = (ok, w1) \<Longrightarrow>
   ok = (\<not> fails e mu) \<and> calls w1 = calls w @ [if retry then WithRetry mu else Direct mu] \<and>
   provider w1 = (if ok then effect e mu (provider w) else provider w)"
  by (auto simp: callProvider_def Let_def split: if_splits)

lemma newCalls_append: "calls w1 = calls w @ cs \<Longrightarrow> newCalls w w1 = cs"
  by (simp add: newCalls_def)

lemma path_calls:
  assumes "logged (\<lambda>c. \<not> isCreateChannel (mutationOf c) \<and> \<not> isRemoveChannel (mutationOf c) \<and>
                      (ok \<longrightarrow> \<not> fails e (mutationOf c))) w w1"
  obtains cs where "calls w1 = calls w @ cs"
    and "\<not> channelCreated e cs" and "\<not> removalIssued cs" and "ok \<Longrightarrow> \<not> membershipFailed e cs"
  using assms
  by (auto simp: logged_def channelCreated_def removalIssued_def membershipFailed_def
        list_all_iff list_ex_iff)

lemma provisionChat_compensation:
  assumes run: "provisionChat e ctx body mode title ps w = (out, w1)"
  shows "(channelCreated e (newCalls w w1) \<and> membershipFailed e (newCalls w w1) \<longrightarrow>
            newCalls w w1 \<noteq> [] \<and>
            last (newCalls w w1) = WithRetry (RemoveChannel (newSid e (created (provider w)))) \<and>
            (\<not> fails e (RemoveChannel (newSid e (created (provider w)))) \<longrightarrow>
               out = Sent 500 (Status ''Failed to add or invite members.'') \<and>
               newSid e (created (provider w)) \<notin> set (map sid (channels (provider w1))))) \<and>
         (\<not> channelCreated e (newCalls w w1) \<longrightarrow> \<not> removalIssued (newCalls w w1))"
proof -
  let ?isDM = "isDMRequest mode ps (bodyForVideoRoom body)"
  let ?uname = "uniqueNameFor e ?isDM (profileId (userProfile ctx)) ps"
  let ?fname = "if ?isDM then ?uname else title"
  let ?creator = "if ?isDM then ''system'' else profileId (userProfile ctx)"
  let ?existing = "if ?isDM then filter (\<lambda>x. uniqueName x = ?uname) (channels (provider w)) else []"
  let ?new = "freshChannel e ?fname ?uname ?creator mode ?isDM (provider w)"
  let ?create = "CreateChannel ?fname ?uname ?creator mode ?isDM"
  have sidnew: "sid ?new = newSid e (created (provider w))" by (simp add: freshChannel_def)
  show ?thesis
  proof (cases "map_of (roles (provider w)) ''channel admin''")
    case None
    then have "w1 = w" using run by (simp add: provisionChat_def Let_def)
    then show ?thesis
      by (simp add: newCalls_def channelCreated_def removalIssued_def)
  next
    case ra: (Some a)
    show ?thesis
    proof (cases "map_of (roles (provider w)) ''channel user''")
      case None
      then have "w1 = w" using run ra by (simp add: provisionChat_def Let_def)
      then show ?thesis
        by (simp add: newCalls_def channelCreated_def removalIssued_def)
    next
      case ru: (Some u)
      show ?thesis
      proof (cases ?existing)
        case (Cons ch others)
        obtain ok v where f: "existingChannelPath e ctx ?isDM a u ps ch w = (ok, v)" by fastforce
        obtain cs where cs: "calls v = calls w @ cs" "\<not> channelCreated e cs" "\<not> removalIssued cs"
          using path_calls [OF existingChannelPath_steps [OF f]] by blast
        have "calls w1 = calls v"
        proof (cases ok)
          case False
          then show ?thesis using run ra ru Cons f by (simp add: provisionChat_def Let_def)
        next
          case True
          then have "mirrorAndRespond e ctx ch ?isDM (mode = ''private'') v = (out, w1)"
            using run ra ru Cons f by (simp add: provisionChat_def Let_def)
          then show ?thesis using mirrorAndRespond_calls by blast
        qed
        then have "newCalls w w1 = cs" using cs(1) by (simp add: newCalls_append)
        then show ?thesis using cs(2,3) by simp
      next
        case Nil
        obtain ok0 v0 where f0: "callProvider e True ?create w = (ok0, v0)" by fastforce
        note r0 = callProvider_result [OF f0]
        show ?thesis
        proof (cases ok0)
          case False
          then have "w1 = v0" using run ra ru Nil f0
            by (simp add: provisionChat_def Let_def callWithRetry_def)
          then have "newCalls w w1 = [WithRetry ?create]" using r0 by (simp add: newCalls_append)
          then show ?thesis using r0 False
            by (simp add: channelCreated_def removalIssued_def)
        next
          case True
          obtain ok1 v1 where f1: "newChannelPath e ctx ?isDM a u ps ?new v0 = (ok1, v1)" by fastforce
          obtain cs where cs: "calls v1 = calls v0 @ cs" "\<not> removalIssued cs"
            "ok1 \<Longrightarrow> \<not> membershipFailed e cs"
            using path_calls [OF newChannelPath_steps [OF f1]] by blast
          have made: "channelCreated e (WithRetry ?create # xs)" for xs
            using r0 True by (simp add: channelCreated_def)
          show ?thesis
          proof (cases ok1)
            case ok1: True
            then have "mirrorAndRespond e ctx ?new ?isDM (mode = ''private'') v1 = (out, w1)"
              using run ra ru Nil f0 f1 True by (simp add: provisionChat_def Let_def callWithRetry_def)
            then have "calls w1 = calls v1" using mirrorAndRespond_calls by blast
            then have nc: "newCalls w w1 = WithRetry ?create # cs"
              using cs(1) r0 by (simp add: newCalls_append)
            have "\<not> membershipFailed e (WithRetry ?create # cs)"
              using cs(3) ok1 by (simp add: membershipFailed_def)
            then show ?thesis using nc made by simp
          next
            case False
            obtain ok2 v2 where f2: "callProvider e True (RemoveChannel (sid ?new)) v1 = (ok2, v2)"
              by fastforce
            note r2 = callProvider_result [OF f2]
            have res: "w1 = v2"
              "ok2 \<Longrightarrow> out = Sent 500 (Status ''Failed to add or invite members.'')"
              using run ra ru Nil f0 f1 f2 True False
              by (cases ok2; simp add: provisionChat_def Let_def callWithRetry_def)+
            have nc: "newCalls w w1 = WithRetry ?create # cs @ [WithRetry (RemoveChannel (sid ?new))]"
              using res(1) r2 cs(1) r0 by (simp add: newCalls_append)
            have gone: "ok2 \<Longrightarrow> sid ?new \<notin> set (map sid (channels (provider w1)))"
              using res(1) r2 by (auto simp: effect.simps)
            show ?thesis
              using nc made res(2) gone r2 unfolding sidnew by simp
          qed
        qed
      qed
    qed
  qed
qed

text \<open>
  Claim C3. In a run of \<^verbatim>\<open>createChat\<close> that created a channel and in which a
  membership or invitation creation failed, the last provider call is the removal of
  the new channel, issued through \<^verbatim>\<open>callWithRetry\<close>; when that removal succeeds,
  the response is status 500 with the message about members, and the provider no
  longer has a channel with the new SID. In a run that created no channel (the
  existing-channel path among them) no removal is issued at all.
\<close>

theorem compensating_deletion:
  assumes "handleCreateChat e rc body w = (out, w1)"
  shows "(channelCreated e (newCalls w w1) \<and> membershipFailed e (newCalls w w1) \<longrightarrow>
            newCalls w w1 \<noteq> [] \<and>
            last (newCalls w w1) = WithRetry (RemoveChannel (newSid e (created (provider w)))) \<and>
            (\<not> fails e (RemoveChannel (newSid e (created (provider w)))) \<longrightarrow>
               out = Sent 500 (Status ''Failed to add or invite members.'') \<and>
               newSid e (created (provider w)) \<notin> set (map sid (channels (provider w1))))) \<and>
         (\<not> channelCreated e (newCalls w w1) \<longrightarrow> \<not> removalIssued (newCalls w w1))"
proof -
  have idle: ?thesis if "w1 = w"
    using that by (simp add: newCalls_def channelCreated_def removalIssued_def)
  show ?thesis
  proof (cases rc)
    case None
    then have "w1 = w" using assms by (simp add: handleCreateChat_def)
    then show ?thesis by (rule idle)
  next
    case (Some ctx)
    show ?thesis
    proof (cases "validateCreateChat ctx body")
      case (Inl resp)
      then have "w1 = w" using assms Some by (simp add: handleCreateChat_def)
      then show ?thesis by (rule idle)
    next
      case (Inr valid)
      obtain ids mode title where v: "valid = (ids, mode, title)" by (cases valid) auto
      show ?thesis
      proof (cases "those (map (\<lambda>i. getUserProfileByID i (conf ctx) (store w)) ids)")
        case None
        then have "w1 = w" using assms Some Inr v by (simp add: handleCreateChat_def)
        then show ?thesis by (rule idle)
      next
        case ps: (Some ps)
        then have "provisionChat e ctx body mode title ps w = (out, w1)"
          using assms Some Inr v by (simp add: handleCreateChat_def)
        then show ?thesis by (rule provisionChat_compensation)
      qed
    qed
  qed
qed

lemma failing_group_request:
  "handleCreateChat failingEnv (Some aliceContext) groupBody groupWorld =
     (Sent 500 (Status ''Failed to add or invite members.''),
      groupWorld\<lparr>provider := (provider groupWorld)
                    \<lparr>users := [(''alice'', ''Alice''), (''bob'', ''Bob''), (''carol'', ''Carol''),
                               (''dave'', ''Dave'')],
                     created := 2\<rparr>,
        calls :=
          [WithRetry (CreateChannel ''Daily standup'' ''alice-1234'' ''alice'' ''public'' False),
           Direct (CreateUser ''dave'' ''Dave''),
           WithRetry (CreateMember ''CHI'' ''alice'' ''RLadmin''),
           WithRetry (CreateInvite ''CHI'' ''bob'' ''RLadmin''),
           WithRetry (CreateInvite ''CHI'' ''dave'' ''RLadmin''),
           WithRetry (RemoveChannel ''CHI'')]\<rparr>)"
  by (simp add: handleCreateChat_def validateCreateChat_def trim_standup getUserProfileByID_def
        provisionChat_def isDMRequest_def uniqueNameFor_def callWithRetry_def callProvider_def
        freshChannel_def newChannelPath_def ensureTwilioUsersExist_def requesterRoleSid_def
        inviteeRoleSid_def isUserInRoles_def effect.simps Let_def
        aliceContext_def aliceProfile_def bobProfile_def daveProfile_def groupWorld_def
        groupChannel_def quietEnv_def failingEnv_def groupBody_def)


lemma failing_dm_request:
  "handleCreateChat failingEnv (Some bobContext) dmToAliceBody dmWorld =
     (Forwarded ProviderError,
      dmWorld\<lparr>calls := [WithRetry (CreateMember ''CH2'' ''bob'' ''RLadmin'')]\<rparr>)"
  by (simp add: handleCreateChat_def validateCreateChat_def trim_standup getUserProfileByID_def
        provisionChat_def isDMRequest_def uniqueNameFor_def dmUniqueName_def callWithRetry_def
        callProvider_def existingChannelPath_def requesterRoleSid_def isUserInRoles_def Let_def
        conferenceCompare_def conferenceOrder_def
        bobContext_def aliceProfile_def bobProfile_def daveProfile_def dmWorld_def groupWorld_def
        groupChannel_def dmChannel_def quietEnv_def failingEnv_def dmToAliceBody_def)

theorem compensating_deletion_witness:
  "fst (handleCreateChat failingEnv (Some aliceContext) groupBody groupWorld) =
     Sent 500 (Status ''Failed to add or invite members.'') \<and>
   last (newCalls groupWorld
          (snd (handleCreateChat failingEnv (Some aliceContext) groupBody groupWorld))) =
     WithRetry (RemoveChannel ''CHI'') \<and>
   ''CHI'' \<notin> set (map sid (channels (provider
          (snd (handleCreateChat failingEnv (Some aliceContext) groupBody groupWorld))))) \<and>
   fst (handleCreateChat failingEnv (Some bobContext) dmToAliceBody dmWorld) =
     Forwarded ProviderError \<and>
   \<not> removalIssued (newCalls dmWorld
          (snd (handleCreateChat failingEnv (Some bobContext) dmToAliceBody dmWorld)))"
proof -
  let ?w1 = "snd (handleCreateChat failingEnv (Some aliceContext) groupBody groupWorld)"
  let ?w2 = "snd (handleCreateChat failingEnv (Some bobContext) dmToAliceBody dmWorld)"
  have nc1: "newCalls groupWorld ?w1 =
          [WithRetry (CreateChannel ''Daily standup'' ''alice-1234'' ''alice'' ''public'' False),
           Direct (CreateUser ''dave'' ''Dave''),
           WithRetry (CreateMember ''CHI'' ''alice'' ''RLadmin''),
           WithRetry (CreateInvite ''CHI'' ''bob'' ''RLadmin''),
           WithRetry (CreateInvite ''CHI'' ''dave'' ''RLadmin''),
           WithRetry (RemoveChannel ''CHI'')]"
    unfolding failing_group_request newCalls_def by (simp add: groupWorld_def)
  have nc2: "newCalls dmWorld ?w2 = [WithRetry (CreateMember ''CH2'' ''bob'' ''RLadmin'')]"
    unfolding failing_dm_request newCalls_def by (simp add: dmWorld_def groupWorld_def)
  have made: "channelCreated failingEnv (newCalls groupWorld ?w1)"
    and failed: "membershipFailed failingEnv (newCalls groupWorld ?w1)"
    and none: "\<not> channelCreated failingEnv (newCalls dmWorld ?w2)"
    unfolding nc1 nc2
    by (simp_all add: channelCreated_def membershipFailed_def failingEnv_def quietEnv_def)
  have removable: "\<not> fails failingEnv (RemoveChannel (newSid failingEnv (created (provider groupWorld))))"
    and sidnew: "newSid failingEnv (created (provider groupWorld)) = ''CHI''"
    by (simp_all add: failingEnv_def quietEnv_def groupWorld_def)
  have one: "fst (handleCreateChat failingEnv (Some aliceContext) groupBody groupWorld) =
       Sent 500 (Status ''Failed to add or invite members.'') \<and>
     last (newCalls groupWorld ?w1) = WithRetry (RemoveChannel ''CHI'') \<and>
     ''CHI'' \<notin> set (map sid (channels (provider ?w1)))"
    using compensating_deletion [where e = failingEnv and rc = "Some aliceContext"
        and body = groupBody and w = groupWorld, OF surjective_pairing] made failed removable
    unfolding sidnew by simp
  have two: "\<not> removalIssued (newCalls dmWorld ?w2)"
    using compensating_deletion [where e = failingEnv and rc = "Some bobContext"
        and body = dmToAliceBody and w = dmWorld, OF surjective_pairing] none
    by simp
  show ?thesis using one two by (simp add: failing_dm_request)
qed

section \<open>Asking twice for the same direct-message channel\<close>

lemma sid_found:
  "s \<in> set (map sid cs) \<Longrightarrow> \<exists>c. find (\<lambda>c. sid c = s) cs = Some c"
  by (cases "find (\<lambda>c. sid c = s) cs") (auto simp: find_None_iff)

lemma mirrorAndRespond_ok:
  assumes "sid ch \<in> set (map sid (channels (provider w)))"
  shows "\<exists>t w1. mirrorAndRespond e ctx ch isDM isPrivate w = (Sent 200 (ChatCreated (sid ch) t), w1) \<and>
           calls w1 = calls w \<and> provider w1 = provider w \<and>
           profiles (store w1) = profiles (store w)"
proof -
  obtain tc v where g: "getOrCreateTextChat e ch (conf ctx) isDM w = (tc, v)" by fastforce
  have pv: "provider v = provider w" "calls v = calls w" "profiles (store v) = profiles (store w)"
    using g by (auto simp: getOrCreateTextChat_def Let_def split: option.splits)
  obtain c where c: "find (\<lambda>c. sid c = sid ch) (channels (provider v)) = Some c"
    using sid_found [OF assms] pv(1) by auto
  have lm: "listMembers v (sid ch) = Some (map fst (members c))"
    and li: "listInvites v (sid ch) = Some (map fst (invites c))"
    using c by (simp_all add: listMembers_def listInvites_def)
  have "\<exists>v1. updateTextChatACLs ch tc (Some isPrivate) v = Some v1"
    by (simp add: updateTextChatACLs_def lm li Let_def)
  then obtain v1 where u: "updateTextChatACLs ch tc (Some isPrivate) v = Some v1" by blast
  then have "calls v1 = calls v \<and> provider v1 = provider v \<and> profiles (store v1) = profiles (store v)"
    by (auto simp: updateTextChatACLs_def saveTextChat_def Let_def split: if_splits option.splits)
  then show ?thesis using g u pv by (simp add: mirrorAndRespond_def)
qed



lemma callWithRetry_nofail:
  "\<not> fails e mu \<Longrightarrow>
   callWithRetry e mu w =
     (True, w\<lparr>calls := calls w @ [WithRetry mu], provider := effect e mu (provider w)\<rparr>)"
  by (simp add: callWithRetry_def callProvider_def)

lemma existingChannelPath_nofail:
  assumes nf: "\<And>mu. \<not> fails e mu"
  shows "\<exists>w1 g. existingChannelPath e ctx isDM a u [p] ch w = (True, w1) \<and>
           store w1 = store w \<and> roles (provider w1) = roles (provider w) \<and>
           channels (provider w1) = map g (channels (provider w)) \<and>
           (\<forall>c. sid (g c) = sid c \<and> uniqueName (g c) = uniqueName c) \<and>
           profileId (userProfile ctx) \<in> set (map fst (members (g ch))) \<and>
           (profileId p \<in> set (map fst (members (g ch))) \<or>
            profileId p \<in> set (map fst (invites (g ch))))"
proof -
  let ?req = "profileId (userProfile ctx)"
  let ?rr = "requesterRoleSid e ctx isDM a u"
  let ?ir = "inviteeRoleSid e ctx p a u"
  let ?addM = "\<lambda>c. if sid c = sid ch then c\<lparr>members := members c @ [(?req, ?rr)]\<rparr> else c"
  let ?addI = "\<lambda>c. if sid c = sid ch then c\<lparr>invites := invites c @ [(profileId p, ?ir)]\<rparr> else c"
  let ?present = "profileId p \<in> set (map fst (members ch)) \<or> profileId p \<in> set (map fst (invites ch))"
  show ?thesis
  proof (cases "?req \<in> set (map fst (members ch))")
    case member: True
    show ?thesis
    proof (cases ?present)
      case True
      have "existingChannelPath e ctx isDM a u [p] ch w = (True, w)"
        using member True by (auto simp: existingChannelPath_def inviteIfAbsent_def Let_def)
      then show ?thesis
        using member True
        by (intro exI [of _ w] exI [of _ "\<lambda>c. c"]) simp
    next
      case False
      have "existingChannelPath e ctx isDM a u [p] ch w =
            (True, w\<lparr>calls := calls w @ [WithRetry (CreateInvite (sid ch) (profileId p) ?ir)],
                     provider := effect e (CreateInvite (sid ch) (profileId p) ?ir) (provider w)\<rparr>)"
        using member False nf
        by (auto simp: existingChannelPath_def inviteIfAbsent_def Let_def callWithRetry_nofail)
      then show ?thesis
        using member
        by (intro exI [of _ "w\<lparr>calls := calls w @ [WithRetry (CreateInvite (sid ch) (profileId p) ?ir)],
                     provider := effect e (CreateInvite (sid ch) (profileId p) ?ir) (provider w)\<rparr>"]
              exI [of _ ?addI])
           (simp add: effect.simps)
    qed
  next
    case absent: False
    let ?w1 = "w\<lparr>calls := calls w @ [WithRetry (CreateMember (sid ch) ?req ?rr)],
                 provider := effect e (CreateMember (sid ch) ?req ?rr) (provider w)\<rparr>"
    show ?thesis
    proof (cases ?present)
      case True
      have "existingChannelPath e ctx isDM a u [p] ch w = (True, ?w1)"
        using absent True nf
        by (auto simp: existingChannelPath_def inviteIfAbsent_def Let_def callWithRetry_nofail)
      then show ?thesis
        using True
        by (intro exI [of _ ?w1] exI [of _ ?addM]) (auto simp: effect.simps)
    next
      case False
      let ?w2 = "?w1\<lparr>calls := calls ?w1 @ [WithRetry (CreateInvite (sid ch) (profileId p) ?ir)],
                 provider := effect e (CreateInvite (sid ch) (profileId p) ?ir) (provider ?w1)\<rparr>"
      have "existingChannelPath e ctx isDM a u [p] ch w = (True, ?w2)"
        using absent False nf
        by (auto simp: existingChannelPath_def inviteIfAbsent_def Let_def callWithRetry_nofail)
      then show ?thesis
        by (intro exI [of _ ?w2] exI [of _ "\<lambda>c. ?addI (?addM c)"]) (auto simp: effect.simps)
    qed
  qed
qed


lemma promiseAll_preserves:
  assumes "\<And>x v. I v \<Longrightarrow> \<exists>v1. f x v = (True, v1) \<and> I v1" and "I w"
  shows "\<exists>w1. promiseAll f xs w = (True, w1) \<and> I w1"
  using assms(2)
proof (induction xs arbitrary: w)
  case Nil
  then show ?case by simp
next
  case (Cons x xs)
  obtain v1 where f: "f x w = (True, v1)" and i: "I v1" using assms(1) [OF Cons.prems] by blast
  obtain w1 where "promiseAll f xs v1 = (True, w1)" and "I w1" using Cons.IH [OF i] by blast
  then show ?case using f by simp
qed

lemma ensureTwilioUsersExist_nofail:
  assumes nf: "\<And>mu. \<not> fails e mu"
  shows "\<exists>w1. ensureTwilioUsersExist e ps w = (True, w1) \<and> store w1 = store w \<and>
           roles (provider w1) = roles (provider w) \<and>
           channels (provider w1) = channels (provider w)"
  unfolding ensureTwilioUsersExist_def Let_def
  by (rule promiseAll_preserves
        [where I = "\<lambda>v. store v = store w \<and> roles (provider v) = roles (provider w) \<and>
                        channels (provider v) = channels (provider w)"])
     (auto simp: callProvider_def nf effect.simps)

lemma newChannelPath_nofail:
  assumes nf: "\<And>mu. \<not> fails e mu"
  shows "\<exists>w1. newChannelPath e ctx isDM a u [p] ch w = (True, w1) \<and> store w1 = store w \<and>
           roles (provider w1) = roles (provider w) \<and>
           channels (provider w1) =
             map (\<lambda>c. if sid c = sid ch
                       then c\<lparr>members := members c @
                                 [(profileId (userProfile ctx), requesterRoleSid e ctx isDM a u)],
                              invites := invites c @
                                 [(profileId p, inviteeRoleSid e ctx p a u)]\<rparr>
                       else c)
                 (channels (provider w))"
proof -
  obtain v0 where e0: "ensureTwilioUsersExist e ([p] @ [userProfile ctx]) w = (True, v0)"
    and s0: "store v0 = store w" "roles (provider v0) = roles (provider w)"
      "channels (provider v0) = channels (provider w)"
    using ensureTwilioUsersExist_nofail [OF nf] by blast
  show ?thesis
    using e0 s0 nf
    by (simp add: newChannelPath_def callWithRetry_nofail effect.simps comp_def if_distrib
          cong: if_cong)
qed


lemma path_creations:
  assumes "logged (\<lambda>c. \<not> isCreateChannel (mutationOf c) \<and> \<not> isRemoveChannel (mutationOf c) \<and>
                      (ok \<longrightarrow> \<not> fails e (mutationOf c))) w v"
  obtains cs where "calls v = calls w @ cs" and "creations cs = 0"
  using assms by (auto simp: logged_def creations_def list_all_iff filter_empty_conv)

lemma filter_grown:
  assumes "\<forall>c. uniqueName (g c) = uniqueName c"
  shows "filter (\<lambda>x. uniqueName x = n) (map g cs) = map g (filter (\<lambda>x. uniqueName x = n) cs)"
  using assms by (induction cs) auto

lemma provisionChat_first:
  assumes dm: "isDMRequest mode [p] (bodyForVideoRoom body)"
      and ra: "map_of (roles (provider w)) ''channel admin'' = Some a"
      and ru: "map_of (roles (provider w)) ''channel user'' = Some u"
      and nf: "\<And>mu. \<not> fails e mu"
  shows "\<exists>t w1 c others.
           provisionChat e ctx body mode title [p] w = (Sent 200 (ChatCreated (sid c) t), w1) \<and>
           profiles (store w1) = profiles (store w) \<and>
           roles (provider w1) = roles (provider w) \<and>
           filter (\<lambda>x. uniqueName x = uniqueNameFor e True (profileId (userProfile ctx)) [p])
                  (channels (provider w1)) = c # others \<and>
           profileId (userProfile ctx) \<in> set (map fst (members c)) \<and>
           (profileId p \<in> set (map fst (members c)) \<or> profileId p \<in> set (map fst (invites c))) \<and>
           creations (newCalls w w1) =
             (if filter (\<lambda>x. uniqueName x = uniqueNameFor e True (profileId (userProfile ctx)) [p])
                        (channels (provider w)) = [] then 1 else 0)"
proof -
  let ?uname = "uniqueNameFor e True (profileId (userProfile ctx)) [p]"
  let ?existing = "filter (\<lambda>x. uniqueName x = ?uname) (channels (provider w))"
  show ?thesis
  proof (cases ?existing)
    case (Cons ch others)
    obtain v g where path: "existingChannelPath e ctx True a u [p] ch w = (True, v)"
      and keep: "store v = store w" "roles (provider v) = roles (provider w)"
      and chans: "channels (provider v) = map g (channels (provider w))"
      and pres: "\<forall>c. sid (g c) = sid c \<and> uniqueName (g c) = uniqueName c"
      and mem: "profileId (userProfile ctx) \<in> set (map fst (members (g ch)))"
      and inv: "profileId p \<in> set (map fst (members (g ch))) \<or>
                profileId p \<in> set (map fst (invites (g ch)))"
      using existingChannelPath_nofail [OF nf, of ctx True a u p ch w] by blast
    have sidg: "sid (g ch) = sid ch" using pres by simp
    have "ch \<in> set ?existing" unfolding Cons by simp
    then have "sid (g ch) \<in> set (map sid (channels (provider v)))"
      unfolding chans by auto
    then have "sid ch \<in> set (map sid (channels (provider v)))"
      unfolding sidg .
    then obtain t w1 where mir: "mirrorAndRespond e ctx ch True (mode = ''private'') v =
          (Sent 200 (ChatCreated (sid ch) t), w1)"
      and same: "calls w1 = calls v" "provider w1 = provider v" "profiles (store w1) = profiles (store v)"
      using mirrorAndRespond_ok by blast
    have run: "provisionChat e ctx body mode title [p] w = (Sent 200 (ChatCreated (sid (g ch)) t), w1)"
      using dm ra ru Cons path sidg mir by (simp add: provisionChat_def Let_def)
    have flt: "filter (\<lambda>x. uniqueName x = ?uname) (channels (provider w1)) = g ch # map g others"
      using pres Cons by (simp add: same(2) chans filter_grown)
    obtain cs where "calls v = calls w @ cs" "creations cs = 0"
      using path_creations [OF existingChannelPath_steps [OF path]] by blast
    then have cr: "creations (newCalls w w1) = 0"
      using same(1) by (simp add: newCalls_def)
    show ?thesis
      using run flt mem inv cr keep same Cons by auto
  next
    case Nil
    let ?create = "CreateChannel ?uname ?uname ''system'' mode True"
    let ?new = "freshChannel e ?uname ?uname ''system'' mode True (provider w)"
    let ?v0 = "w\<lparr>calls := calls w @ [WithRetry ?create], provider := effect e ?create (provider w)\<rparr>"
    let ?g = "\<lambda>c. if sid c = sid ?new
                  then c\<lparr>members := members c @
                           [(profileId (userProfile ctx), requesterRoleSid e ctx True a u)],
                         invites := invites c @ [(profileId p, inviteeRoleSid e ctx p a u)]\<rparr>
                  else c"
    have c0: "callWithRetry e ?create w = (True, ?v0)" using nf by (rule callWithRetry_nofail)
    obtain v1 where path: "newChannelPath e ctx True a u [p] ?new ?v0 = (True, v1)"
      and keep: "store v1 = store ?v0" "roles (provider v1) = roles (provider ?v0)"
      and chans: "channels (provider v1) = map ?g (channels (provider ?v0))"
      using newChannelPath_nofail [OF nf, of ctx True a u p ?new ?v0] by blast
    have chans0: "channels (provider ?v0) = channels (provider w) @ [?new]"
      by (simp add: effect.simps)
    have "sid ?new \<in> set (map sid (channels (provider v1)))"
      unfolding chans chans0 by simp
    then obtain t w1 where mir: "mirrorAndRespond e ctx ?new True (mode = ''private'') v1 =
          (Sent 200 (ChatCreated (sid ?new) t), w1)"
      and same: "calls w1 = calls v1" "provider w1 = provider v1" "profiles (store w1) = profiles (store v1)"
      using mirrorAndRespond_ok by blast
    have run: "provisionChat e ctx body mode title [p] w = (Sent 200 (ChatCreated (sid (?g ?new)) t), w1)"
      using dm ra ru Nil c0 path mir by (simp add: provisionChat_def Let_def)
    have pres: "\<forall>c. uniqueName (?g c) = uniqueName c" by simp
    have un: "uniqueName ?new = ?uname" by (simp add: freshChannel_def)
    have flt: "filter (\<lambda>x. uniqueName x = ?uname) (channels (provider w1)) = [?g ?new]"
      unfolding same(2) chans chans0 filter_grown [OF pres]
      using Nil un by simp
    obtain cs where "calls v1 = calls ?v0 @ cs" "creations cs = 0"
      using path_creations [OF newChannelPath_steps [OF path]] by blast
    then have cr: "creations (newCalls w w1) = 1"
      using same(1) by (simp add: newCalls_def creations_def)
    have members: "profileId (userProfile ctx) \<in> set (map fst (members (?g ?new)))"
      "profileId p \<in> set (map fst (invites (?g ?new)))"
      by simp_all
    have rl: "roles (provider w1) = roles (provider w)"
      using same(2) keep(2) by (simp add: effect.simps)
    have pf: "profiles (store w1) = profiles (store w)"
      using same(3) keep(1) by simp
    show ?thesis
      using run flt members cr rl pf Nil
      by (intro exI [of _ t] exI [of _ w1] exI [of _ "?g ?new"] exI [of _ "[]"]) simp
  qed
qed


lemma getUserProfileByID_profiles:
  "profiles st1 = profiles st \<Longrightarrow> getUserProfileByID i cnf st1 = getUserProfileByID i cnf st"
  by (simp add: getUserProfileByID_def)





section \<open>The two requests of a pair of identities\<close>

lemma getUserProfileByID_id: "getUserProfileByID i cnf st = Some p \<Longrightarrow> profileId p = i"
  by (auto simp: getUserProfileByID_def find_Some_iff)

lemma provisionChat_existing:
  assumes dm: "isDMRequest mode [p] (bodyForVideoRoom body)"
      and ra: "map_of (roles (provider w)) ''channel admin'' = Some a"
      and ru: "map_of (roles (provider w)) ''channel user'' = Some u"
      and nf: "\<And>mu. \<not> fails e mu"
      and ex: "filter (\<lambda>x. uniqueName x = uniqueNameFor e True (profileId (userProfile ctx)) [p])
                      (channels (provider w)) = ch # others"
  shows "\<exists>t w1. provisionChat e ctx body mode title [p] w = (Sent 200 (ChatCreated (sid ch) t), w1) \<and>
           creations (newCalls w w1) = 0"
proof -
  obtain v g where path: "existingChannelPath e ctx True a u [p] ch w = (True, v)"
    and chans: "channels (provider v) = map g (channels (provider w))"
    and pres: "\<forall>c. sid (g c) = sid c \<and> uniqueName (g c) = uniqueName c"
    using existingChannelPath_nofail [OF nf, of ctx True a u p ch w] by blast
  have sidg: "sid (g ch) = sid ch" using pres by simp
  have "ch \<in> set (filter (\<lambda>x. uniqueName x = uniqueNameFor e True (profileId (userProfile ctx)) [p])
                      (channels (provider w)))"
    unfolding ex by simp
  then have "sid (g ch) \<in> set (map sid (channels (provider v)))"
    unfolding chans by auto
  then have "sid ch \<in> set (map sid (channels (provider v)))"
    unfolding sidg .
  then obtain t w1 where mir: "mirrorAndRespond e ctx ch True (mode = ''private'') v =
        (Sent 200 (ChatCreated (sid ch) t), w1)"
    and same: "calls w1 = calls v"
    using mirrorAndRespond_ok by blast
  have run: "provisionChat e ctx body mode title [p] w = (Sent 200 (ChatCreated (sid ch) t), w1)"
    using dm ra ru ex path mir by (simp add: provisionChat_def Let_def)
  obtain cs where "calls v = calls w @ cs" "creations cs = 0"
    using path_creations [OF existingChannelPath_steps [OF path]] by blast
  then have "creations (newCalls w w1) = 0"
    using same by (simp add: newCalls_def)
  then show ?thesis using run by blast
qed

text \<open>
  When the comparison orders the two identities, the request of the second for a
  direct-message channel with the first, run after the request of the first for one
  with the second, is answered with the SID of the same channel and creates no channel.
\<close>

lemma dm_requests_share_channel:
  assumes lt: "localeCompare e (profileId (userProfile ctxA)) (profileId (userProfile ctxB)) = - 1"
      and ge: "localeCompare e (profileId (userProfile ctxB)) (profileId (userProfile ctxA)) \<noteq> - 1"
      and va: "validateCreateChat ctxA bodyA = Inr ([profileId (userProfile ctxB)], ''private'', titleA)"
      and la: "getUserProfileByID (profileId (userProfile ctxB)) (conf ctxA) (store w) = Some pb"
      and fa: "bodyForVideoRoom bodyA \<noteq> JBool True"
      and vb: "validateCreateChat ctxB bodyB = Inr ([profileId (userProfile ctxA)], ''private'', titleB)"
      and lb: "getUserProfileByID (profileId (userProfile ctxA)) (conf ctxB) (store w) = Some pa"
      and fb: "bodyForVideoRoom bodyB \<noteq> JBool True"
      and ra: "map_of (roles (provider w)) ''channel admin'' = Some a"
      and ru: "map_of (roles (provider w)) ''channel user'' = Some u"
      and nf: "\<And>mu. \<not> fails e mu"
  shows "\<exists>s t t' w1 w2.
           handleCreateChat e (Some ctxA) bodyA w = (Sent 200 (ChatCreated s t), w1) \<and>
           handleCreateChat e (Some ctxB) bodyB w1 = (Sent 200 (ChatCreated s t'), w2) \<and>
           creations (newCalls w1 w2) = 0"
proof -
  let ?a = "profileId (userProfile ctxA)"
  let ?b = "profileId (userProfile ctxB)"
  have ida: "profileId pa = ?a" using lb by (rule getUserProfileByID_id)
  have idb: "profileId pb = ?b" using la by (rule getUserProfileByID_id)
  have names: "uniqueNameFor e True ?b [pa] = uniqueNameFor e True ?a [pb]"
    using dm_unique_name_ordered [OF lt ge ida idb] by simp
  have dmA: "isDMRequest ''private'' [pb] (bodyForVideoRoom bodyA)"
    using fa by (simp add: isDMRequest_def)
  have dmB: "isDMRequest ''private'' [pa] (bodyForVideoRoom bodyB)"
    using fb by (simp add: isDMRequest_def)
  obtain t w1 c others where
    run1: "provisionChat e ctxA bodyA ''private'' titleA [pb] w = (Sent 200 (ChatCreated (sid c) t), w1)"
    and pf: "profiles (store w1) = profiles (store w)"
    and rl: "roles (provider w1) = roles (provider w)"
    and ex: "filter (\<lambda>x. uniqueName x = uniqueNameFor e True ?a [pb]) (channels (provider w1)) =
             c # others"
    using provisionChat_first [OF dmA ra ru nf, of ctxA titleA] by blast
  have h1: "handleCreateChat e (Some ctxA) bodyA w = (Sent 200 (ChatCreated (sid c) t), w1)"
    using va la run1 by (simp add: handleCreateChat_def)
  have lb1: "getUserProfileByID ?a (conf ctxB) (store w1) = Some pa"
    using lb getUserProfileByID_profiles [OF pf] by simp
  have ex2: "filter (\<lambda>x. uniqueName x = uniqueNameFor e True ?b [pa]) (channels (provider w1)) =
             c # others"
    using ex names by simp
  have ra1: "map_of (roles (provider w1)) ''channel admin'' = Some a"
    and ru1: "map_of (roles (provider w1)) ''channel user'' = Some u"
    using ra ru rl by simp_all
  obtain t' w2 where
    run2: "provisionChat e ctxB bodyB ''private'' titleB [pa] w1 = (Sent 200 (ChatCreated (sid c) t'), w2)"
    and cr: "creations (newCalls w1 w2) = 0"
    using provisionChat_existing [OF dmB ra1 ru1 nf ex2, of titleB] by blast
  have h2: "handleCreateChat e (Some ctxB) bodyB w1 = (Sent 200 (ChatCreated (sid c) t'), w2)"
    using vb lb1 run2 by (simp add: handleCreateChat_def)
  show ?thesis using h1 h2 cr by blast
qed

end
